theory Spec2Isabelle
  imports Main "HOL-Library.AList"
begin

section \<open>Values\<close>

text \<open>
  The service (\<^verbatim>\<open>src/meteo_telegram/main.py\<close>) moves JSON-like Python values between
  the telegram decoder, MongoDB and HTTP responses. A Python \<^verbatim>\<open>float\<close> is either finite
  (sign, significand, binary exponent: \<open>(-1)^s * m * 2^e\<close>, which also tells \<open>-0.0\<close> from
  \<open>0.0\<close>), one of the two infinities, or NaN. No arithmetic is done on floats by the code
  modelled here; only \<^verbatim>\<open>==\<close> and \<^verbatim>\<open>!=\<close> are used, and they are modelled by \<open>float_eq\<close>.
\<close>

datatype pyfloat = Finite bool nat int | PosInf | NegInf | NaN

definition signed :: "bool \<Rightarrow> nat \<Rightarrow> int" where
  "signed s n = (if s then - int n else int n)"

text \<open>Python's \<^verbatim>\<open>==\<close> on two floats: NaN is equal to nothing, itself included.\<close>

fun float_eq :: "pyfloat \<Rightarrow> pyfloat \<Rightarrow> bool" where
  "float_eq NaN _ = False"
| "float_eq _ NaN = False"
| "float_eq PosInf g = (g = PosInf)"
| "float_eq NegInf g = (g = NegInf)"
| "float_eq (Finite s m e) (Finite s' m' e') =
     (let k = min e e' in
      signed s (m * 2 ^ nat (e - k)) = signed s' (m' * 2 ^ nat (e' - k)))"
| "float_eq (Finite s m e) _ = False"

text \<open>
  A Python \<^verbatim>\<open>str\<close> is a \<open>string\<close>: each character stands for the code point of the same
  number (0 to 255). A \<^verbatim>\<open>dict\<close> with string keys is an association list in insertion
  order; a list that models a dict has pairwise distinct keys.
\<close>

datatype pyval =
    PNone
  | PBool bool
  | PInt int
  | PFloat pyfloat
  | PStr string
  | PList "pyval list"
  | PDict "(string \<times> pyval) list"

type_synonym dict = "(string \<times> pyval) list"

section \<open>The sanitizer\<close>

text \<open>
  \<^verbatim>\<open>clean_data\<close> (lines 26 to 35). The dict branch assigns \<^verbatim>\<open>data[key] = clean_data(value)\<close>
  for every item of the dict and returns the same dict, so keys and their order stay; the
  list branch builds a new list; the float branch tests
  \<^verbatim>\<open>data == float("inf") or data == float("-inf") or data != data\<close>.
  \<^verbatim>\<open>isinstance(data, float)\<close> is false of \<^verbatim>\<open>bool\<close> and \<^verbatim>\<open>int\<close>.
\<close>

fun clean_data :: "pyval \<Rightarrow> pyval" where
  "clean_data (PDict kvs) = PDict (map (\<lambda>(key, value). (key, clean_data value)) kvs)"
| "clean_data (PList xs) = PList (map clean_data xs)"
| "clean_data (PFloat f) =
     (if float_eq f PosInf \<or> float_eq f NegInf \<or> \<not> float_eq f f then PNone else PFloat f)"
| "clean_data v = v"

text \<open>
  The sanitizer's contract in the words of the specification, as a relation between a
  tree and its sanitized form: a float that is positive infinity, negative infinity or
  NaN becomes null; a list is sanitized element by element; a mapping keeps its keys, in
  order, and is sanitized value by value; every other value is unchanged.
\<close>

definition non_finite :: "pyfloat \<Rightarrow> bool" where
  "non_finite f = (f = PosInf \<or> f = NegInf \<or> f = NaN)"

fun sanitized :: "pyval \<Rightarrow> pyval \<Rightarrow> bool" where
  "sanitized (PFloat f) w = (if non_finite f then w = PNone else w = PFloat f)"
| "sanitized (PList xs) w =
     (case w of PList ys \<Rightarrow> list_all2 sanitized xs ys | _ \<Rightarrow> False)"
| "sanitized (PDict kvs) w =
     (case w of
        PDict kws \<Rightarrow> list_all2 (\<lambda>(k, v) (k', v'). k' = k \<and> sanitized v v') kvs kws
      | _ \<Rightarrow> False)"
| "sanitized v w = (w = v)"

section \<open>Errors\<close>

text \<open>
  Exceptions are values. \<open>KeyError\<close> is Python's own; \<open>InvalidName\<close> is what the MongoDB
  driver raises when it is asked for a collection under a name it does not accept;
  \<open>StoreUnavailable\<close> and \<open>WriteError\<close> stand for what the driver raises when the server
  cannot be reached or rejects a write. \<^verbatim>\<open>ValueError\<close> is raised only by \<^verbatim>\<open>int\<close> inside the \<^verbatim>\<open>try\<close> of
  \<^verbatim>\<open>filter_telegrams\<close>, which catches it; it is the \<open>None\<close> of \<open>py_int\<close>.
\<close>

datatype py_error = KeyError string | InvalidName string | StoreUnavailable | WriteError

section \<open>Parsing integers\<close>

text \<open>
  Python's \<^verbatim>\<open>int(s)\<close> on a \<^verbatim>\<open>str\<close>, base 10: surrounding whitespace is dropped, one
  sign may lead, and the rest must be decimal digits, where single underscores may stand
  between digits. Anything else raises \<^verbatim>\<open>ValueError\<close> (\<open>None\<close>). Whitespace is tab, line
  feed, vertical tab, form feed, carriage return, space and, beyond ASCII, the code points
  133 and 160; the only decimal digits up to code point 255 are \<^verbatim>\<open>0\<close> to \<^verbatim>\<open>9\<close>.
  \<open>slice s i j\<close> is \<^verbatim>\<open>s[i:j]\<close> for \<open>0 \<le> i \<le> j\<close>, which never raises.
\<close>

definition is_space :: "char \<Rightarrow> bool" where
  "is_space c = (of_char c \<in> {9, 10, 11, 12, 13, 32, 133, 160 :: nat})"

definition is_digit :: "char \<Rightarrow> bool" where
  "is_digit c = (48 \<le> (of_char c :: nat) \<and> (of_char c :: nat) \<le> 57)"

definition digit_value :: "char \<Rightarrow> int" where
  "digit_value c = int (of_char c) - 48"

definition strip :: "string \<Rightarrow> string" where
  "strip s = rev (dropWhile is_space (rev (dropWhile is_space s)))"

fun digit_run :: "string \<Rightarrow> bool" where
  "digit_run [] = False"
| "digit_run [c] = is_digit c"
| "digit_run (c # d # cs) =
     (is_digit c \<and> (if d = CHR ''_'' then digit_run cs else digit_run (d # cs)))"

definition digits_value :: "string \<Rightarrow> int" where
  "digits_value s = foldl (\<lambda>acc c. 10 * acc + digit_value c) 0 (filter is_digit s)"

definition py_int :: "string \<Rightarrow> int option" where
  "py_int s =
     (case strip s of
        [] \<Rightarrow> None
      | c # cs \<Rightarrow>
          if c = CHR ''-'' then (if digit_run cs then Some (- digits_value cs) else None)
          else if c = CHR ''+'' then (if digit_run cs then Some (digits_value cs) else None)
          else if digit_run (c # cs) then Some (digits_value (c # cs))
          else None)"

definition slice :: "string \<Rightarrow> nat \<Rightarrow> nat \<Rightarrow> string" where
  "slice s i j = take (j - i) (drop i s)"

section \<open>Filter criteria and the query of \<^verbatim>\<open>filter_telegrams\<close>\<close>

text \<open>
  \<^verbatim>\<open>TelegramFilter\<close> (lines 83 to 137): every field is optional and defaults to
  \<^verbatim>\<open>None\<close>.
\<close>

record TelegramFilter =
  country_code :: "string option"
  station_id :: "string option"
  date :: "string option"
  date_start :: "string option"
  date_end :: "string option"
  hour :: "int option"
  temperature :: "pyfloat option"
  dew_point_temperature :: "pyfloat option"
  relative_humidity :: "pyfloat option"
  wind_dir :: "pyfloat option"
  wind_speed :: "pyfloat option"
  pressure :: "pyfloat option"
  sea_level_pressure :: "pyfloat option"
  maximum_temperature :: "pyfloat option"
  minimum_temperature :: "pyfloat option"
  precipitation_s1 :: "pyfloat option"
  precipitation_s3 :: "pyfloat option"
  pressure_tendency :: "pyfloat option"
  present_weather :: "string option"
  past_weather_1 :: "string option"
  past_weather_2 :: "string option"
  sunshine :: "pyfloat option"
  ground_state_snow :: "string option"
  ground_state :: "string option"
  fields_to_return :: "string list option"

text \<open>
  Lines 369 to 386, the body of the loop over the collections up to the query. The three
  assignments to \<^verbatim>\<open>query\<close> stand after the three calls of \<^verbatim>\<open>int\<close>, so a failing call
  leaves \<^verbatim>\<open>query\<close> as it was, and the handler of \<^verbatim>\<open>ValueError\<close> is \<^verbatim>\<open>continue\<close>:
  \<open>build_query\<close> is \<open>None\<close> when the iteration is abandoned that way, before any query
  is issued. \<^verbatim>\<open>if filter.station_id\<close> and \<^verbatim>\<open>if filter.date\<close> test truthiness (neither
  \<^verbatim>\<open>None\<close> nor the empty string), \<^verbatim>\<open>if filter.hour is not None\<close> tests presence.
  An assignment \<^verbatim>\<open>query[k] = v\<close> is \<open>AList.update k v\<close>.
\<close>

definition add_date :: "string \<Rightarrow> dict \<Rightarrow> dict option" where
  "add_date d query =
     (case py_int (slice d 0 4) of
        None \<Rightarrow> None
      | Some year \<Rightarrow>
          (case py_int (slice d 4 6) of
             None \<Rightarrow> None
           | Some month \<Rightarrow>
               (case py_int (slice d 6 8) of
                  None \<Rightarrow> None
                | Some day \<Rightarrow>
                    Some (AList.update ''data.day'' (PInt day)
                           (AList.update ''data.month'' (PInt month)
                             (AList.update ''data.year'' (PInt year) query))))))"

definition build_query :: "TelegramFilter \<Rightarrow> dict option" where
  "build_query f =
     (let query = [];
          query = (case station_id f of
                     None \<Rightarrow> query
                   | Some s \<Rightarrow>
                       if s \<noteq> [] then AList.update ''data.station_id'' (PStr s) query
                       else query);
          dated = (case date f of
                     None \<Rightarrow> Some query
                   | Some d \<Rightarrow>
                       if d \<noteq> [] \<and> length d \<ge> 8 then add_date d query else Some query)
      in case dated of
           None \<Rightarrow> None
         | Some query \<Rightarrow>
             Some (case hour f of
                     None \<Rightarrow> query
                   | Some h \<Rightarrow> AList.update ''data.hour'' (PInt h) query))"

text \<open>Lines 388 to 391.\<close>

definition build_projection :: "TelegramFilter \<Rightarrow> dict" where
  "build_projection f =
     (let projection = [(''_id'', PBool False)] in
      case fields_to_return f of
        None \<Rightarrow> projection
      | Some wanted \<Rightarrow>
          if wanted \<noteq> []
          then foldl (\<lambda>p field. AList.update (''data.'' @ field) (PBool True) p)
                 projection wanted
          else projection)"

section \<open>The document store\<close>

text \<open>
  \<^verbatim>\<open>db[collection_name]\<close> (line 368) builds the driver's collection object and contacts
  no server, but the constructor checks the name: it raises \<^verbatim>\<open>InvalidName\<close> for an empty
  name, a name that contains \<^verbatim>\<open>..\<close>, a name that contains \<^verbatim>\<open>$\<close> (unless it starts with
  \<^verbatim>\<open>oplog.$main\<close> or \<^verbatim>\<open>$cmd\<close>), a name that starts or ends with a dot, and a name that
  contains the null character. This is the driver's documented check, not code of the
  repository.
\<close>

fun has_double_dot :: "string \<Rightarrow> bool" where
  "has_double_dot (c # d # cs) = ((c = CHR ''.'' \<and> d = CHR ''.'') \<or> has_double_dot (d # cs))"
| "has_double_dot cs = False"

definition starts_with :: "string \<Rightarrow> string \<Rightarrow> bool" where
  "starts_with p s = (take (length p) s = p)"

definition valid_collection_name :: "string \<Rightarrow> bool" where
  "valid_collection_name name =
     (name \<noteq> [] \<and> \<not> has_double_dot name
      \<and> (CHR ''$'' \<in> set name
           \<longrightarrow> starts_with ''oplog.$main'' name \<or> starts_with ''$cmd'' name)
      \<and> take 1 name \<noteq> ''.'' \<and> take 1 (rev name) \<noteq> ''.''
      \<and> CHR 0x00 \<notin> set name)"

definition db_getitem :: "string \<Rightarrow> py_error + string" where
  "db_getitem name = (if valid_collection_name name then Inr name else Inl (InvalidName name))"

text \<open>
  \<^verbatim>\<open>db.list_collection_names()\<close> and \<^verbatim>\<open>collection.find(query, projection)\<close> are answered by
  the server: the handler is modelled over any store, given by what these two calls
  return. Either may raise. \<open>coll_find\<close> is \<^verbatim>\<open>db[name].find(query, projection)\<close> as a
  whole: the collection object is built, then the server is asked. A \<open>find_call\<close> records
  one call of \<^verbatim>\<open>find\<close>: the collection, the query and the projection.
\<close>

record store =
  list_collection_names :: "py_error + string list"
  find_in :: "string \<Rightarrow> dict \<Rightarrow> dict \<Rightarrow> py_error + pyval list"

definition coll_find :: "store \<Rightarrow> string \<Rightarrow> dict \<Rightarrow> dict \<Rightarrow> py_error + pyval list" where
  "coll_find st name query projection =
     (case db_getitem name of
        Inl e \<Rightarrow> Inl e
      | Inr collection \<Rightarrow> find_in st collection query projection)"

type_synonym find_call = "string \<times> dict \<times> dict"

text \<open>
  Lines 367 to 399, the loop, with the calls of \<^verbatim>\<open>find\<close> made so far and the results
  collected so far as its state. The collection object is built first (line 368), before
  the date is parsed; an exception there or in \<^verbatim>\<open>find\<close> ends the request.
\<close>

fun query_collections ::
  "store \<Rightarrow> TelegramFilter \<Rightarrow> string list \<Rightarrow> find_call list \<times> pyval list
     \<Rightarrow> find_call list \<times> (py_error + pyval list)" where
  "query_collections st f [] (calls, results) = (calls, Inr results)"
| "query_collections st f (collection_name # rest) (calls, results) =
     (case db_getitem collection_name of
        Inl e \<Rightarrow> (calls, Inl e)
      | Inr collection \<Rightarrow>
          (case build_query f of
             None \<Rightarrow> query_collections st f rest (calls, results)
           | Some query \<Rightarrow>
               (let projection = build_projection f;
                    calls' = calls @ [(collection_name, query, projection)]
                in case find_in st collection query projection of
                     Inl e \<Rightarrow> (calls', Inl e)
                   | Inr collection_results \<Rightarrow>
                       query_collections st f rest (calls', results @ collection_results))))"

text \<open>
  Lines 364 and 401 to 406. \<^verbatim>\<open>not cleaned_results\<close> holds of the empty list only.
\<close>

definition no_data_found :: pyval where
  "no_data_found = PDict [(''message'', PStr ''No data found for the given filters'')]"

definition collections_to_query :: "store \<Rightarrow> TelegramFilter \<Rightarrow> py_error + string list" where
  "collections_to_query st f =
     (case country_code f of
        None \<Rightarrow> list_collection_names st
      | Some c \<Rightarrow> if c \<noteq> [] then Inr [c] else list_collection_names st)"

definition filter_telegrams ::
  "store \<Rightarrow> TelegramFilter \<Rightarrow> find_call list \<times> (py_error + pyval)" where
  "filter_telegrams st f =
     (case collections_to_query st f of
        Inl e \<Rightarrow> ([], Inl e)
      | Inr names \<Rightarrow>
          (case query_collections st f names ([], []) of
             (calls, Inl e) \<Rightarrow> (calls, Inl e)
           | (calls, Inr results) \<Rightarrow>
               (let cleaned_results = clean_data (PList results) in
                if cleaned_results = PList [] then (calls, Inr no_data_found)
                else (calls, Inr (PDict [(''results'', cleaned_results)])))))"

text \<open>The criteria object of a request with an empty body.\<close>

definition no_criteria :: TelegramFilter where
  "no_criteria =
     \<lparr>country_code = None, station_id = None, date = None, date_start = None,
      date_end = None, hour = None, temperature = None, dew_point_temperature = None,
      relative_humidity = None, wind_dir = None, wind_speed = None, pressure = None,
      sea_level_pressure = None, maximum_temperature = None, minimum_temperature = None,
      precipitation_s1 = None, precipitation_s3 = None, pressure_tendency = None,
      present_weather = None, past_weather_1 = None, past_weather_2 = None,
      sunshine = None, ground_state_snow = None, ground_state = None,
      fields_to_return = None\<rparr>"

section \<open>The query, clause by clause\<close>

text \<open>
  The query of a request described criterion by criterion: the clause of the station
  (a non-empty \<^verbatim>\<open>station_id\<close>), the clause of the date (year, month and day read from
  the first eight characters of a \<^verbatim>\<open>date\<close> of at least eight characters), and the clause
  of the hour (\<^verbatim>\<open>hour\<close> other than \<^verbatim>\<open>None\<close>). \<open>date_rejected\<close> holds of a \<^verbatim>\<open>date\<close> of at
  least eight characters of which year, month or day is not read by \<^verbatim>\<open>int\<close>.
\<close>

definition station_clause :: "TelegramFilter \<Rightarrow> dict" where
  "station_clause f =
     (case station_id f of
        None \<Rightarrow> []
      | Some s \<Rightarrow> if s = [] then [] else [(''data.station_id'', PStr s)])"

definition date_rejected :: "TelegramFilter \<Rightarrow> bool" where
  "date_rejected f =
     (case date f of
        None \<Rightarrow> False
      | Some d \<Rightarrow>
          8 \<le> length d \<and>
          (py_int (slice d 0 4) = None \<or> py_int (slice d 4 6) = None
           \<or> py_int (slice d 6 8) = None))"

definition date_clause :: "TelegramFilter \<Rightarrow> dict" where
  "date_clause f =
     (case date f of
        None \<Rightarrow> []
      | Some d \<Rightarrow>
          if 8 \<le> length d then
            (case py_int (slice d 0 4) of
               None \<Rightarrow> []
             | Some y \<Rightarrow>
                 (case py_int (slice d 4 6) of
                    None \<Rightarrow> []
                  | Some m \<Rightarrow>
                      (case py_int (slice d 6 8) of
                         None \<Rightarrow> []
                       | Some dd \<Rightarrow>
                           [(''data.year'', PInt y), (''data.month'', PInt m),
                            (''data.day'', PInt dd)])))
          else [])"

definition hour_clause :: "TelegramFilter \<Rightarrow> dict" where
  "hour_clause f = (case hour f of None \<Rightarrow> [] | Some h \<Rightarrow> [(''data.hour'', PInt h)])"

text \<open>A store with the given collections that answers every query with the same documents.\<close>

definition fixed_store :: "string list \<Rightarrow> pyval list \<Rightarrow> store" where
  "fixed_store names docs =
     \<lparr>list_collection_names = Inr names, find_in = (\<lambda>name query projection. Inr docs)\<rparr>"

section \<open>A model of MongoDB\<close>

text \<open>
  Where a property depends on what MongoDB answers, the store is a list of named
  collections, each a list of documents in the store's order. This part is not code of
  the repository; it follows the documented behaviour of the fragment the service uses:
  \<^item> a query document of equalities on dotted paths matches a document when, for each
    path, a value the path leads to equals the given value or is an array with a member
    that equals it; a path leads through nested documents and through the documents that
    are members of an array; numbers are equal across numeric types when they have the
    same value (18 and 18.0), and NaN equals NaN. The service queries the paths
    \<^verbatim>\<open>id_telegram\<close>, \<^verbatim>\<open>data.station_id\<close>, \<^verbatim>\<open>data.year\<close>, \<^verbatim>\<open>data.month\<close>, \<^verbatim>\<open>data.day\<close> and
    \<^verbatim>\<open>data.hour\<close> for strings and integers only: array positions as path components and
    queries for null are not modelled. The properties of the projection below are
    proved for any matching relation \<open>sel\<close>, of which \<open>matches\<close> is one;
  \<^item> a projection with included paths returns only those paths, and \<^verbatim>\<open>_id\<close> unless it
    is excluded; inside an array the embedded documents are projected and other elements
    are dropped; a projection that only excludes \<^verbatim>\<open>_id\<close> returns every other field;
  \<^item> \<^verbatim>\<open>update_one\<close> with \<^verbatim>\<open>$set\<close> changes the first matching document and inserts
    nothing when none matches; \<^verbatim>\<open>matched_count\<close> counts the document found and
    \<^verbatim>\<open>modified_count\<close> counts it only if the update changed it; setting a path through
    a value that is not a document is a write error (array indices are not modelled);
    an empty \<^verbatim>\<open>$set\<close> changes nothing.
\<close>

type_synonym database = "(string \<times> dict list) list"

definition collection_docs :: "database \<Rightarrow> string \<Rightarrow> dict list" where
  "collection_docs db name = (case map_of db name of None \<Rightarrow> [] | Some docs \<Rightarrow> docs)"

fun split_dots :: "string \<Rightarrow> string list" where
  "split_dots [] = [[]]"
| "split_dots (c # cs) =
     (if c = CHR ''.'' then [] # split_dots cs
      else (case split_dots cs of [] \<Rightarrow> [[c]] | p # ps \<Rightarrow> (c # p) # ps))"

definition float_of_int :: "int \<Rightarrow> pyfloat" where
  "float_of_int i = Finite (i < 0) (nat \<bar>i\<bar>) 0"

fun mongo_eq :: "pyval \<Rightarrow> pyval \<Rightarrow> bool" where
  "mongo_eq (PInt i) (PInt j) = (i = j)"
| "mongo_eq (PInt i) (PFloat g) = float_eq (float_of_int i) g"
| "mongo_eq (PFloat g) (PInt j) = float_eq g (float_of_int j)"
| "mongo_eq (PFloat g) (PFloat h) = (float_eq g h \<or> (g = NaN \<and> h = NaN))"
| "mongo_eq (PList xs) (PList ys) = list_all2 mongo_eq xs ys"
| "mongo_eq (PDict kvs) (PDict kws) =
     list_all2 (\<lambda>(k, v) (k', v'). k = k' \<and> mongo_eq v v') kvs kws"
| "mongo_eq a b = (a = b)"

fun path_values :: "string list \<Rightarrow> pyval \<Rightarrow> pyval list"
  and path_values_members :: "string list \<Rightarrow> pyval list \<Rightarrow> pyval list" where
  "path_values [] v = [v]"
| "path_values (k # ks) (PDict kvs) =
     (case map_of kvs k of None \<Rightarrow> [] | Some v \<Rightarrow> path_values ks v)"
| "path_values (k # ks) (PList xs) = path_values_members (k # ks) xs"
| "path_values (k # ks) v = []"
| "path_values_members ks [] = []"
| "path_values_members ks (PDict kvs # xs) =
     path_values ks (PDict kvs) @ path_values_members ks xs"
| "path_values_members ks (x # xs) = path_values_members ks xs"

definition value_matches :: "pyval \<Rightarrow> pyval \<Rightarrow> bool" where
  "value_matches wanted stored =
     (mongo_eq stored wanted
      \<or> (case stored of PList xs \<Rightarrow> list_ex (\<lambda>x. mongo_eq x wanted) xs | _ \<Rightarrow> False))"

definition matches :: "dict \<Rightarrow> dict \<Rightarrow> bool" where
  "matches query doc =
     list_all (\<lambda>(path, wanted).
                 list_ex (value_matches wanted) (path_values (split_dots path) (PDict doc)))
       query"

definition sub_paths :: "string \<Rightarrow> string list list \<Rightarrow> string list list" where
  "sub_paths k paths = [ks. k' # ks \<leftarrow> paths, k' = k]"

fun project_value :: "string list list \<Rightarrow> pyval \<Rightarrow> pyval option"
  and project_fields :: "string list list \<Rightarrow> dict \<Rightarrow> dict"
  and project_elems :: "string list list \<Rightarrow> pyval list \<Rightarrow> pyval list" where
  "project_value paths (PDict kvs) = Some (PDict (project_fields paths kvs))"
| "project_value paths (PList xs) = Some (PList (project_elems paths xs))"
| "project_value paths v = None"
| "project_fields paths [] = []"
| "project_fields paths ((k, v) # kvs) =
     (let subs = sub_paths k paths in
      if subs = [] then project_fields paths kvs
      else if [] \<in> set subs then (k, v) # project_fields paths kvs
      else (case project_value subs v of
              None \<Rightarrow> project_fields paths kvs
            | Some v' \<Rightarrow> (k, v') # project_fields paths kvs))"
| "project_elems paths [] = []"
| "project_elems paths (x # xs) =
     (case project_value paths x of
        None \<Rightarrow> project_elems paths xs
      | Some x' \<Rightarrow> x' # project_elems paths xs)"

definition apply_projection :: "dict \<Rightarrow> dict \<Rightarrow> dict" where
  "apply_projection projection doc =
     (let included = [split_dots path. (path, flag) \<leftarrow> projection, flag = PBool True];
          id_excluded = (map_of projection ''_id'' = Some (PBool False))
      in if included = [] then (if id_excluded then AList.delete ''_id'' doc else doc)
         else project_fields (if id_excluded then included else [''_id''] # included) doc)"

definition mongo_find ::
  "(dict \<Rightarrow> dict \<Rightarrow> bool) \<Rightarrow> database \<Rightarrow> string \<Rightarrow> dict \<Rightarrow> dict
     \<Rightarrow> py_error + pyval list" where
  "mongo_find sel db name query projection =
     Inr (map (\<lambda>doc. PDict (apply_projection projection doc))
            (filter (sel query) (collection_docs db name)))"

definition mongo_store :: "(dict \<Rightarrow> dict \<Rightarrow> bool) \<Rightarrow> database \<Rightarrow> store" where
  "mongo_store sel db =
     \<lparr>list_collection_names = Inr (map fst db), find_in = mongo_find sel db\<rparr>"

record update_result =
  matched_count :: nat
  modified_count :: nat

fun nest :: "string list \<Rightarrow> pyval \<Rightarrow> pyval" where
  "nest [] v = v"
| "nest (k # ks) v = PDict [(k, nest ks v)]"

fun set_path :: "string list \<Rightarrow> pyval \<Rightarrow> pyval \<Rightarrow> pyval option" where
  "set_path [] new old = Some new"
| "set_path (k # ks) new (PDict kvs) =
     (case map_of kvs k of
        None \<Rightarrow> Some (PDict (kvs @ [(k, nest ks new)]))
      | Some sub \<Rightarrow>
          (case set_path ks new sub of
             None \<Rightarrow> None
           | Some sub' \<Rightarrow> Some (PDict (AList.update k sub' kvs))))"
| "set_path (k # ks) new old = None"

fun apply_set :: "dict \<Rightarrow> pyval \<Rightarrow> pyval option" where
  "apply_set [] doc = Some doc"
| "apply_set ((path, v) # rest) doc =
     (case set_path (split_dots path) v doc of
        None \<Rightarrow> None
      | Some doc' \<Rightarrow> apply_set rest doc')"

fun update_first ::
  "dict \<Rightarrow> dict \<Rightarrow> dict list \<Rightarrow> py_error + (update_result \<times> dict list)" where
  "update_first flt sets [] = Inr (\<lparr>matched_count = 0, modified_count = 0\<rparr>, [])"
| "update_first flt sets (doc # docs) =
     (if matches flt doc then
        (case apply_set sets (PDict doc) of
           Some (PDict doc') \<Rightarrow>
             Inr (\<lparr>matched_count = 1, modified_count = (if doc' = doc then 0 else 1)\<rparr>,
                  doc' # docs)
         | _ \<Rightarrow> Inl WriteError)
      else
        (case update_first flt sets docs of
           Inl e \<Rightarrow> Inl e
         | Inr (r, docs') \<Rightarrow> Inr (r, doc # docs')))"

definition mongo_update_one ::
  "string \<Rightarrow> dict \<Rightarrow> dict \<Rightarrow> database \<Rightarrow> py_error + (update_result \<times> database)" where
  "mongo_update_one name flt update db =
     (case db_getitem name of
        Inl e \<Rightarrow> Inl e
      | Inr collection \<Rightarrow>
          (case update of
             [(op, PDict sets)] \<Rightarrow>
               if op = ''$set'' then
                 (case map_of db collection of
                    None \<Rightarrow> Inr (\<lparr>matched_count = 0, modified_count = 0\<rparr>, db)
                  | Some docs \<Rightarrow>
                      (case update_first flt sets docs of
                         Inl e \<Rightarrow> Inl e
                       | Inr (r, docs') \<Rightarrow> Inr (r, AList.update collection docs' db)))
               else Inl WriteError
           | _ \<Rightarrow> Inl WriteError))"

section \<open>The PUT handler\<close>

text \<open>
  \<^verbatim>\<open>update_data_in_collection\<close> (lines 293 to 307), over any \<^verbatim>\<open>update_one\<close> of the
  driver, which takes the state of the store to a result and a new state, or raises. The
  two replies are the handler's two messages, Ukrainian for "data updated successfully"
  and "no data found for this id".
\<close>

datatype put_reply = Data_updated | Data_not_found

definition update_data_in_collection ::
  "(string \<Rightarrow> dict \<Rightarrow> dict \<Rightarrow> 's \<Rightarrow> py_error + (update_result \<times> 's))
     \<Rightarrow> string \<Rightarrow> string \<Rightarrow> dict \<Rightarrow> 's \<Rightarrow> py_error + (put_reply \<times> 's)" where
  "update_data_in_collection update_one collection_name id_teleg dynamic_updates s =
     (let update_fields = map (\<lambda>(field, value). (''data.'' @ field, value)) dynamic_updates
      in case update_one collection_name [(''id_telegram'', PStr id_teleg)]
                [(''$set'', PDict update_fields)] s of
           Inl e \<Rightarrow> Inl e
         | Inr (result, s') \<Rightarrow>
             if modified_count result = 1 then Inr (Data_updated, s')
             else Inr (Data_not_found, s'))"

section \<open>Ingestion\<close>

text \<open>
  \<^verbatim>\<open>download_and_process_telegrams\<close> (lines 46 to 61). The telegram processor
  (\<^verbatim>\<open>telegram_decode\<close>) and the database manager (\<^verbatim>\<open>mongo_db.mongo_tools\<close>) are modules of
  the repository outside \<^verbatim>\<open>main.py\<close>; they are parameters: \<open>process_telegrams\<close> gives
  the records of \<^verbatim>\<open>df_result.to_dict('records')\<close> for a country or raises, and the two
  operations of the manager take the state of the store to a new state or raise. What the
  function does is recorded as events: what it prints and what it hands to
  \<^verbatim>\<open>insert_or_update_document\<close>. \<^verbatim>\<open>document["id_telegram"]\<close> raises \<^verbatim>\<open>KeyError\<close> on a
  record without that key; \<^verbatim>\<open>pop("id_telegram", None)\<close> removes the key from the record,
  which is the very object stored under \<^verbatim>\<open>"data"\<close>. The function has no \<^verbatim>\<open>return\<close>
  statement: called to its end it returns \<^verbatim>\<open>None\<close>.
\<close>

record 's db_manager =
  get_or_create_collection :: "string \<Rightarrow> 's \<Rightarrow> py_error + 's"
  insert_or_update_document :: "string \<Rightarrow> pyval \<Rightarrow> 's \<Rightarrow> py_error + 's"

datatype event =
    Printed_document pyval
  | Upserted string pyval
  | Printed_count string nat

fun process_documents ::
  "'s db_manager \<Rightarrow> string \<Rightarrow> nat \<Rightarrow> dict list \<Rightarrow> 's \<times> event list
     \<Rightarrow> ('s \<times> event list) \<times> (py_error + pyval)" where
  "process_documents m country n [] (s, out) = ((s, out), Inr PNone)"
| "process_documents m country n (document # rest) (s, out) =
     (case map_of document ''id_telegram'' of
        None \<Rightarrow> ((s, out), Inl (KeyError ''id_telegram''))
      | Some id_telegram \<Rightarrow>
          (let data_for_mongo =
                 PDict [(''id_telegram'', id_telegram),
                        (''data'', PDict (AList.delete ''id_telegram'' document))]
           in case get_or_create_collection m country s of
                Inl e \<Rightarrow> ((s, out), Inl e)
              | Inr s1 \<Rightarrow>
                  (case insert_or_update_document m country data_for_mongo s1 of
                     Inl e \<Rightarrow> ((s1, out @ [Printed_document data_for_mongo]), Inl e)
                   | Inr s2 \<Rightarrow>
                       process_documents m country n rest
                         (s2, out @ [Printed_document data_for_mongo,
                                     Upserted country data_for_mongo,
                                     Printed_count country n]))))"

definition download_and_process_telegrams ::
  "(string \<Rightarrow> py_error + dict list) \<Rightarrow> 's db_manager \<Rightarrow> string \<Rightarrow> 's
     \<Rightarrow> ('s \<times> event list) \<times> (py_error + pyval)" where
  "download_and_process_telegrams process_telegrams m country s =
     (case process_telegrams country of
        Inl e \<Rightarrow> ((s, []), Inl e)
      | Inr documents \<Rightarrow>
          process_documents m country (length documents) documents (s, []))"

section \<open>Observing an ingestion run\<close>

text \<open>
  The documents handed to \<^verbatim>\<open>insert_or_update_document\<close> and the counts printed, read off
  the events of a run. \<open>stored_shape\<close> is the persisted shape of a record: exactly the two
  keys \<^verbatim>\<open>id_telegram\<close> and \<^verbatim>\<open>data\<close>, in this order, where \<^verbatim>\<open>data\<close> is a mapping
  without the key \<^verbatim>\<open>id_telegram\<close>.
\<close>

definition upserts :: "event list \<Rightarrow> (string \<times> pyval) list" where
  "upserts events = concat (map (\<lambda>e. case e of Upserted c d \<Rightarrow> [(c, d)] | _ \<Rightarrow> []) events)"

definition printed_counts :: "event list \<Rightarrow> nat list" where
  "printed_counts events =
     concat (map (\<lambda>e. case e of Printed_count c n \<Rightarrow> [n] | _ \<Rightarrow> []) events)"

definition stored_shape :: "pyval \<Rightarrow> bool" where
  "stored_shape doc =
     (case doc of
        PDict [(k1, v), (k2, PDict d)] \<Rightarrow>
          k1 = ''id_telegram'' \<and> k2 = ''data'' \<and> map_of d ''id_telegram'' = None
      | _ \<Rightarrow> False)"

text \<open>
  Lines 55 to 57 for one record: the document built from it, or nothing when the record
  has no \<^verbatim>\<open>id_telegram\<close> (the \<^verbatim>\<open>KeyError\<close>). The top-level value is the record's own
  identifier, and \<^verbatim>\<open>data\<close> is the record without that key, its other fields kept in
  order.
\<close>

definition data_for_mongo :: "dict \<Rightarrow> pyval option" where
  "data_for_mongo document =
     (case map_of document ''id_telegram'' of
        None \<Rightarrow> None
      | Some id_telegram \<Rightarrow>
          Some (PDict [(''id_telegram'', id_telegram),
                       (''data'', PDict (AList.delete ''id_telegram'' document))]))"

text \<open>
  The store after the given documents have gone, one after the other, through
  \<^verbatim>\<open>get_or_create_collection\<close> and \<^verbatim>\<open>insert_or_update_document\<close> for the collection of the
  country (lines 58 and 60), or the first error.
\<close>

fun apply_upserts :: "'s db_manager \<Rightarrow> string \<Rightarrow> pyval list \<Rightarrow> 's \<Rightarrow> py_error + 's" where
  "apply_upserts m country [] s = Inr s"
| "apply_upserts m country (doc # docs) s =
     (case get_or_create_collection m country s of
        Inl e \<Rightarrow> Inl e
      | Inr s1 \<Rightarrow>
          (case insert_or_update_document m country doc s1 of
             Inl e \<Rightarrow> Inl e
           | Inr s2 \<Rightarrow> apply_upserts m country docs s2))"

text \<open>
  A database manager that accepts every write and counts the upserts, one that keeps
  every document it is given, with its collection, and a processor that delivers two
  records.
\<close>

definition recording_manager :: "(string \<times> pyval) list db_manager" where
  "recording_manager =
     \<lparr>get_or_create_collection = (\<lambda>name s. Inr s),
      insert_or_update_document = (\<lambda>name doc s. Inr (s @ [(name, doc)]))\<rparr>"

definition counting_manager :: "nat db_manager" where
  "counting_manager =
     \<lparr>get_or_create_collection = (\<lambda>name s. Inr s),
      insert_or_update_document = (\<lambda>name doc s. Inr (Suc s))\<rparr>"

definition two_records :: "string \<Rightarrow> py_error + dict list" where
  "two_records country =
     Inr [[(''id_telegram'', PStr ''3450420249218''), (''station_id'', PStr ''34504''),
           (''hour'', PInt 18)],
          [(''station_id'', PStr ''34505''), (''id_telegram'', PStr ''3450520249218''),
           (''hour'', PInt 18)]]"

section \<open>What a projected request returns\<close>

text \<open>
  The view of a stored record that keeps its \<^verbatim>\<open>data\<close> mapping only, restricted to the
  named sub-fields; \<open>data_is_mapping\<close> holds of a record whose \<^verbatim>\<open>data\<close> is a mapping;
  \<open>answer\<close> is the response to a request that returns, for every record of the named
  collections that the store selects for the query, the sanitized view of that record,
  collection by collection. A plain field name is not empty and has no dot, no dollar
  sign and no null character (MongoDB rejects a projection path with an empty component
  or one that starts with a dollar sign). \<open>example_db\<close> holds one telegram of station 34504
  (temperature 31.375); \<open>float_hour_db\<close> holds the same telegram with its hour stored as
  the float 18.0.
\<close>

definition restrict_to :: "string list \<Rightarrow> pyval \<Rightarrow> pyval" where
  "restrict_to names v =
     (case v of PDict d \<Rightarrow> PDict (filter (\<lambda>(k, x). k \<in> set names) d) | _ \<Rightarrow> v)"

definition named_fields_only :: "string list \<Rightarrow> dict \<Rightarrow> dict" where
  "named_fields_only names doc =
     map (\<lambda>(k, v). (k, restrict_to names v)) (filter (\<lambda>(k, v). k = ''data'') doc)"

definition data_is_mapping :: "dict \<Rightarrow> bool" where
  "data_is_mapping doc =
     list_all (\<lambda>(k, v). k \<noteq> ''data'' \<or> (case v of PDict d \<Rightarrow> True | _ \<Rightarrow> False)) doc"

definition answer ::
  "(dict \<Rightarrow> dict \<Rightarrow> bool) \<Rightarrow> database \<Rightarrow> string list \<Rightarrow> dict \<Rightarrow> (dict \<Rightarrow> dict) \<Rightarrow> pyval" where
  "answer sel db names query view =
     (let rs = concat (map (\<lambda>name. map (\<lambda>doc. clean_data (PDict (view doc)))
                                    (filter (sel query) (collection_docs db name))) names)
      in if rs = [] then no_data_found else PDict [(''results'', PList rs)])"

definition plain_field_name :: "string \<Rightarrow> bool" where
  "plain_field_name n =
     (n \<noteq> [] \<and> CHR ''.'' \<notin> set n \<and> CHR ''$'' \<notin> set n \<and> CHR 0x00 \<notin> set n)"

definition example_db :: database where
  "example_db =
     [(''ua'',
       [[(''_id'', PInt 1), (''id_telegram'', PStr ''3450420249218''),
         (''data'', PDict [(''station_id'', PStr ''34504''), (''hour'', PInt 18),
                           (''temperature'', PFloat (Finite False 251 (-3)))])]])]"

definition float_hour_db :: database where
  "float_hour_db =
     [(''ua'',
       [[(''_id'', PInt 1), (''id_telegram'', PStr ''3450420249218''),
         (''data'', PDict [(''station_id'', PStr ''34504''),
                           (''hour'', PFloat (Finite False 18 0)),
                           (''temperature'', PFloat (Finite False 251 (-3)))])]])]"

section \<open>Properties of the sanitizer\<close>

lemma float_eq_PosInf: "float_eq f PosInf = (f = PosInf)"
  by (cases f) simp_all

lemma float_eq_NegInf: "float_eq f NegInf = (f = NegInf)"
  by (cases f) simp_all

lemma float_eq_self: "float_eq f f = (f \<noteq> NaN)"
  by (cases f) simp_all

lemma clean_data_PFloat: "clean_data (PFloat f) = (if non_finite f then PNone else PFloat f)"
  by (simp add: float_eq_PosInf float_eq_NegInf float_eq_self non_finite_def)

lemma list_all2_functional:
  "(\<And>x y. x \<in> set xs \<Longrightarrow> P x y = (y = g x)) \<Longrightarrow> list_all2 P xs ys = (ys = map g xs)"
proof (induction xs arbitrary: ys)
  case Nil
  then show ?case by auto
next
  case (Cons x xs)
  then show ?case by (cases ys) auto
qed

text \<open>
  C1. For every value tree \<open>v\<close>, \<open>clean_data v\<close> is the one tree that has the structure
  of \<open>v\<close> (same lists, same keys in the same order) with exactly the floats that are
  positive infinity, negative infinity or NaN replaced by null, at any depth, and every
  other value unchanged.
\<close>

theorem clean_data_sanitizes: "sanitized v w = (w = clean_data v)"
proof (induction v arbitrary: w rule: clean_data.induct)
  case (1 kvs)
  have "list_all2 (\<lambda>(k, v) (k', v'). k' = k \<and> sanitized v v') kvs kws
        = (kws = map (\<lambda>(key, value). (key, clean_data value)) kvs)" for kws
    by (rule list_all2_functional) (use 1 in \<open>auto split: prod.splits\<close>)
  then show ?case by (cases w) simp_all
next
  case (2 xs)
  have "list_all2 sanitized xs ys = (ys = map clean_data xs)" for ys
    by (rule list_all2_functional) (use 2 in auto)
  then show ?case by (cases w) simp_all
next
  case (3 f)
  show ?case unfolding clean_data_PFloat by simp
qed simp_all

text \<open>
  C7. The sanitizer is idempotent: sanitizing a sanitized tree changes nothing.
\<close>

theorem clean_data_idempotent: "clean_data (clean_data x) = clean_data x"
proof (induction x rule: clean_data.induct)
  case (1 kvs)
  then show ?case by (auto split: prod.splits)
next
  case (2 xs)
  then show ?case by simp
next
  case (3 f)
  then show ?case by simp
qed simp_all

section \<open>Properties of the query builder\<close>

lemma update_fresh: "k \<notin> fst ` set al \<Longrightarrow> AList.update k v al = al @ [(k, v)]"
  by (induction al) auto

lemma build_query_clauses:
  "build_query f =
     (if date_rejected f then None
      else Some (station_clause f @ date_clause f @ hour_clause f))"
  by (auto simp: build_query_def add_date_def date_rejected_def station_clause_def
        date_clause_def hour_clause_def update_fresh Let_def
      split: option.splits)

lemma build_query_depends:
  "station_id g = station_id f \<Longrightarrow> date g = date f \<Longrightarrow> hour g = hour f
   \<Longrightarrow> build_query g = build_query f"
  by (simp add: build_query_clauses date_rejected_def station_clause_def date_clause_def
        hour_clause_def)

lemma query_collections_cong:
  "build_query g = build_query f \<Longrightarrow> build_projection g = build_projection f \<Longrightarrow>
   query_collections st g names acc = query_collections st f names acc"
  by (induction st f names acc rule: query_collections.induct)
     (auto split: option.splits sum.splits simp: Let_def)

lemma py_int_examples:
  "py_int ''2024'' = Some 2024" "py_int ''09'' = Some 9" "py_int ''01'' = Some 1"
  "py_int ''badb'' = None"
  by (simp_all add: py_int_def strip_def is_space_def digits_value_def is_digit_def
        digit_value_def)

lemma valid_names: "valid_collection_name ''ua''" "valid_collection_name ''bel''"
  by (simp_all add: valid_collection_name_def)

lemma db_getitem_valid: "valid_collection_name name \<Longrightarrow> db_getitem name = Inr name"
  by (simp add: db_getitem_def)

lemma coll_find_Inr:
  "coll_find st c q p = Inr ds \<Longrightarrow> db_getitem c = Inr c \<and> find_in st c q p = Inr ds"
  by (auto simp: coll_find_def db_getitem_def split: if_splits)

lemma coll_find_Inl:
  "coll_find st c q p = Inl e \<Longrightarrow>
   db_getitem c = Inl e \<or> (db_getitem c = Inr c \<and> find_in st c q p = Inl e)"
  by (auto simp: coll_find_def db_getitem_def split: if_splits)

lemma query_collections_skipped:
  "build_query f = None \<Longrightarrow>
   query_collections st f names (calls, results) =
     (case List.find (\<lambda>name. \<not> valid_collection_name name) names of
        None \<Rightarrow> (calls, Inr results)
      | Some name \<Rightarrow> (calls, Inl (InvalidName name)))"
  by (induction names) (simp_all add: db_getitem_def)

lemma query_collections_all:
  "build_query f = Some q \<Longrightarrow>
   (\<And>c. c \<in> set names \<Longrightarrow> coll_find st c q (build_projection f) = Inr (docs c)) \<Longrightarrow>
   query_collections st f names (calls, results) =
     (calls @ map (\<lambda>c. (c, q, build_projection f)) names,
      Inr (results @ concat (map docs names)))"
proof (induction names arbitrary: calls results)
  case Nil
  then show ?case by simp
next
  case (Cons c names)
  have "db_getitem c = Inr c \<and> find_in st c q (build_projection f) = Inr (docs c)"
    using Cons.prems(2)[of c] by (intro coll_find_Inr) simp
  then show ?case
    using Cons.IH[OF Cons.prems(1)] Cons.prems by (simp add: Let_def)
qed

lemma query_collections_error:
  "build_query f = Some q \<Longrightarrow> c \<in> set names \<Longrightarrow>
   coll_find st c q (build_projection f) = Inl e \<Longrightarrow>
   \<exists>e'. snd (query_collections st f names (calls, results)) = Inl e'"
proof (induction names arbitrary: calls results)
  case Nil
  then show ?case by simp
next
  case (Cons d names)
  show ?case
  proof (cases "d = c")
    case True
    then show ?thesis
      using coll_find_Inl[OF Cons.prems(3)] Cons.prems(1) by (auto simp: Let_def)
  next
    case False
    then have "c \<in> set names" using Cons.prems(2) by simp
    then show ?thesis
      using Cons.IH[OF Cons.prems(1) _ Cons.prems(3)] Cons.prems(1)
      by (auto simp: Let_def split: sum.splits)
  qed
qed

lemma clean_data_PList_empty: "(clean_data (PList rs) = PList []) = (rs = [])"
  by simp

lemma filter_telegrams_all:
  assumes "collections_to_query st f = Inr names" and "build_query f = Some q"
    and "\<And>c. c \<in> set names \<Longrightarrow> coll_find st c q (build_projection f) = Inr (docs c)"
  shows "filter_telegrams st f =
           (map (\<lambda>c. (c, q, build_projection f)) names,
            Inr (if concat (map docs names) = [] then no_data_found
                 else PDict [(''results'', PList (map clean_data (concat (map docs names))))]))"
  using assms(1) query_collections_all[OF assms(2), of names st docs "[]" "[]"] assms(3)
  by (simp add: filter_telegrams_def Let_def)

lemma filter_telegrams_error:
  assumes "collections_to_query st f = Inr names" and "build_query f = Some q"
    and "c \<in> set names" and "coll_find st c q (build_projection f) = Inl e"
  shows "\<exists>e'. snd (filter_telegrams st f) = Inl e'"
proof -
  obtain e' where "snd (query_collections st f names ([], [])) = Inl e'"
    using query_collections_error[OF assms(2,3,4)] by blast
  then show ?thesis using assms(1)
    by (cases "query_collections st f names ([], [])")
       (auto simp: filter_telegrams_def Let_def split: sum.splits)
qed

lemma no_data_found_not_results:
  "no_data_found \<noteq> PDict [(''results'', v)]" "PDict [(''results'', v)] \<noteq> no_data_found"
  by (simp_all add: no_data_found_def)


lemmas eval_defs =
  filter_telegrams_def collections_to_query_def build_query_def add_date_def
  build_projection_def py_int_def strip_def is_space_def is_digit_def digit_value_def
  digits_value_def slice_def no_criteria_def no_data_found_def fixed_store_def Let_def
  coll_find_def db_getitem_def valid_collection_name_def starts_with_def

lemma filter_telegrams_cong:
  assumes "build_query g = build_query f" and "build_projection g = build_projection f"
    and "country_code g = country_code f"
  shows "filter_telegrams st g = filter_telegrams st f"
proof -
  have h: "query_collections st g names acc = query_collections st f names acc" for names acc
    using assms(1,2) by (rule query_collections_cong)
  show ?thesis
    unfolding filter_telegrams_def collections_to_query_def h assms(3) ..
qed

lemma filter_telegrams_single:
  assumes "collections_to_query st f = Inr [c]" and "build_query f = Some q"
    and "valid_collection_name c"
  shows "fst (filter_telegrams st f) = [(c, q, build_projection f)]"
  using assms by (simp add: filter_telegrams_def db_getitem_def Let_def split: sum.splits)

lemma date_clause_shape:
  "date_clause f = [] \<or>
   (\<exists>y m dd. date_clause f =
      [(''data.year'', PInt y), (''data.month'', PInt m), (''data.day'', PInt dd)])"
  by (simp add: date_clause_def split: option.split)

lemma date_clause_no_station: "map_of (date_clause f) ''data.station_id'' = None"
  using date_clause_shape[of f] by auto

lemma date_clause_no_hour: "map_of (date_clause f) ''data.hour'' = None"
  using date_clause_shape[of f] by auto

lemma hour_clause_no_station: "map_of (hour_clause f) ''data.station_id'' = None"
  by (simp add: hour_clause_def split: option.split)

lemma station_clause_no_hour: "map_of (station_clause f) ''data.hour'' = None"
  by (simp add: station_clause_def split: option.split)

text \<open>
  C2, amended. The query built by \<^verbatim>\<open>filter_telegrams\<close> is the conjunction of the clause
  of the station (exact match on \<^verbatim>\<open>data.station_id\<close>, when \<^verbatim>\<open>station_id\<close> is a non-empty
  string), the clause of the date (exact matches on \<^verbatim>\<open>data.year\<close>, \<^verbatim>\<open>data.month\<close> and
  \<^verbatim>\<open>data.day\<close> read from the first eight characters, when \<^verbatim>\<open>date\<close> has at least eight
  characters) and the clause of the hour (exact match on \<^verbatim>\<open>data.hour\<close>, when \<^verbatim>\<open>hour\<close> is
  not \<^verbatim>\<open>None\<close>, zero included); when year, month or day of such a date cannot be read, no
  query is built. No other criterion contributes: criteria that agree on \<^verbatim>\<open>station_id\<close>,
  \<^verbatim>\<open>date\<close> and \<^verbatim>\<open>hour\<close> give the same query. The criteria \<^verbatim>\<open>country_code: "ua"\<close>,
  \<^verbatim>\<open>date: "20240901"\<close>, \<^verbatim>\<open>hour: 18\<close> query the collection \<^verbatim>\<open>ua\<close> only, with year 2024,
  month 9, day 1 and hour 18.
\<close>

theorem query_is_conjunction_of_clauses:
  "build_query f =
     (if date_rejected f then None
      else Some (station_clause f @ date_clause f @ hour_clause f))
   \<and> (station_id g = station_id f \<and> date g = date f \<and> hour g = hour f
        \<longrightarrow> build_query g = build_query f)
   \<and> fst (filter_telegrams st
             (no_criteria\<lparr>country_code := Some ''ua'', date := Some ''20240901'',
                           hour := Some 18\<rparr>))
       = [(''ua'',
           [(''data.year'', PInt 2024), (''data.month'', PInt 9), (''data.day'', PInt 1),
            (''data.hour'', PInt 18)],
           [(''_id'', PBool False)])]"
proof (intro conjI impI)
  show "build_query f =
     (if date_rejected f then None
      else Some (station_clause f @ date_clause f @ hour_clause f))"
    by (rule build_query_clauses)
next
  assume "station_id g = station_id f \<and> date g = date f \<and> hour g = hour f"
  then show "build_query g = build_query f"
    by (intro build_query_depends) simp_all
next
  let ?f = "no_criteria\<lparr>country_code := Some ''ua'', date := Some ''20240901'',
                         hour := Some 18\<rparr>"
  have q: "build_query ?f =
             Some [(''data.year'', PInt 2024), (''data.month'', PInt 9),
                   (''data.day'', PInt 1), (''data.hour'', PInt 18)]"
    by (simp add: eval_defs)
  have p: "build_projection ?f = [(''_id'', PBool False)]"
    by (simp add: eval_defs)
  have c: "collections_to_query st ?f = Inr [''ua'']"
    by (simp add: collections_to_query_def no_criteria_def)
  show "fst (filter_telegrams st ?f)
       = [(''ua'',
           [(''data.year'', PInt 2024), (''data.month'', PInt 9), (''data.day'', PInt 1),
            (''data.hour'', PInt 18)],
           [(''_id'', PBool False)])]"
    using filter_telegrams_single[OF c q valid_names(1)] by (simp add: p)
qed

theorem query_is_conjunction_of_clauses_witness:
  "build_query (no_criteria\<lparr>station_id := Some ''34504'', date := Some ''20240901'',
                    hour := Some 0, temperature := Some NaN, pressure := Some PosInf\<rparr>)
   = Some [(''data.station_id'', PStr ''34504''), (''data.year'', PInt 2024),
           (''data.month'', PInt 9), (''data.day'', PInt 1), (''data.hour'', PInt 0)]"
  using query_is_conjunction_of_clauses
    [of "no_criteria\<lparr>station_id := Some ''34504'', date := Some ''20240901'',
                      hour := Some 0\<rparr>"
        "no_criteria\<lparr>station_id := Some ''34504'', date := Some ''20240901'',
                      hour := Some 0, temperature := Some NaN, pressure := Some PosInf\<rparr>"]
  by (simp add: date_rejected_def station_clause_def date_clause_def hour_clause_def
        py_int_def strip_def is_space_def is_digit_def digit_value_def digits_value_def
        slice_def no_criteria_def)

text \<open>
  C2 as stated fails: with \<^verbatim>\<open>station_id: ""\<close> and \<^verbatim>\<open>date: "2024"\<close> both criteria are
  present, yet the query holds the hour alone.
\<close>

theorem present_criteria_without_constraint:
  "build_query (no_criteria\<lparr>station_id := Some [], date := Some ''2024'', hour := Some 0\<rparr>)
   = Some [(''data.hour'', PInt 0)]"
  by (simp add: eval_defs)

text \<open>
  C3, amended. When \<^verbatim>\<open>date\<close> has at least eight characters and year, month or day
  cannot be read, \<^verbatim>\<open>filter_telegrams\<close> issues no query and raises nothing for the date:
  it skips every collection it would have queried and answers "no data found", provided
  the driver accepts the names of these collections. The collection object is built
  before the date is parsed, so the first name the driver does not accept (a
  \<^verbatim>\<open>country_code\<close> such as \<^verbatim>\<open>$\<close>) ends the request in \<^verbatim>\<open>InvalidName\<close>; and with no
  \<^verbatim>\<open>country_code\<close> the store may fail to list its collections.
\<close>

theorem rejected_date_skips_every_collection:
  assumes "date_rejected f"
  shows "filter_telegrams st f =
           (case collections_to_query st f of
              Inl e \<Rightarrow> ([], Inl e)
            | Inr names \<Rightarrow>
                (case List.find (\<lambda>name. \<not> valid_collection_name name) names of
                   None \<Rightarrow> ([], Inr no_data_found)
                 | Some name \<Rightarrow> ([], Inl (InvalidName name))))"
proof -
  have "build_query f = None"
    using assms by (simp add: build_query_clauses)
  then show ?thesis
    by (simp add: filter_telegrams_def query_collections_skipped
          split: sum.splits option.splits)
qed

theorem rejected_date_skips_every_collection_witness:
  "date_rejected (no_criteria\<lparr>country_code := Some ''ua'', date := Some ''2024-09-01''\<rparr>)
   \<and> filter_telegrams (fixed_store [''ua'', ''bel''] [PStr ''record''])
        (no_criteria\<lparr>country_code := Some ''ua'', date := Some ''2024-09-01''\<rparr>)
     = ([], Inr no_data_found)
   \<and> date_rejected (no_criteria\<lparr>country_code := Some ''$'', date := Some ''2024-09-01''\<rparr>)
   \<and> filter_telegrams (fixed_store [''ua'', ''bel''] [PStr ''record''])
        (no_criteria\<lparr>country_code := Some ''$'', date := Some ''2024-09-01''\<rparr>)
     = ([], Inl (InvalidName ''$''))"
proof -
  have r: "date_rejected (no_criteria\<lparr>country_code := Some ''ua'', date := Some ''2024-09-01''\<rparr>)"
    by (simp add: date_rejected_def py_int_def strip_def is_space_def is_digit_def
          digit_value_def digits_value_def slice_def no_criteria_def)
  have r': "date_rejected (no_criteria\<lparr>country_code := Some ''$'', date := Some ''2024-09-01''\<rparr>)"
    by (simp add: date_rejected_def py_int_def strip_def is_space_def is_digit_def
          digit_value_def digits_value_def slice_def no_criteria_def)
  show ?thesis
    using r r'
      rejected_date_skips_every_collection[OF r, of "fixed_store [''ua'', ''bel''] [PStr ''record'']"]
      rejected_date_skips_every_collection[OF r', of "fixed_store [''ua'', ''bel''] [PStr ''record'']"]
    by (simp add: collections_to_query_def no_criteria_def valid_collection_name_def
          starts_with_def)
qed

text \<open>
  C3 as stated fails: with \<^verbatim>\<open>date: "badbadba"\<close> the collection is not queried and the
  answer is "no data found", while with no date it is queried and its record returned.
\<close>

theorem unparseable_date_is_not_unset:
  "filter_telegrams (fixed_store [''ua''] [PStr ''record''])
     (no_criteria\<lparr>date := Some ''badbadba''\<rparr>)
   = ([], Inr no_data_found)
   \<and> filter_telegrams (fixed_store [''ua''] [PStr ''record'']) no_criteria
   = ([(''ua'', [], [(''_id'', PBool False)])],
      Inr (PDict [(''results'', PList [PStr ''record''])]))"
  by (simp add: eval_defs)

text \<open>
  C6, amended. For criteria with no \<^verbatim>\<open>country_code\<close> (or an empty one) whose date is not
  rejected, and a store that lists its collections: if every query succeeds,
  \<^verbatim>\<open>filter_telegrams\<close> issues one query per collection, in the order listed, all with the
  same query and projection, and returns the sanitized concatenation of their results, or
  the "no data found" message when that is empty; if a query fails the request ends in
  the store's error; and the answer is "no data found" exactly when every query succeeded
  with no record, so it is never the answer to a store error.
\<close>

theorem fan_out_over_collections:
  assumes "country_code f = None \<or> country_code f = Some []"
    and "list_collection_names st = Inr names"
    and "\<not> date_rejected f"
  shows "\<exists>q. build_query f = Some q
    \<and> ((\<forall>c\<in>set names. coll_find st c q (build_projection f) = Inr (docs c)) \<longrightarrow>
         filter_telegrams st f =
           (map (\<lambda>c. (c, q, build_projection f)) names,
            Inr (if concat (map docs names) = [] then no_data_found
                 else PDict [(''results'', PList (map clean_data (concat (map docs names))))])))
    \<and> ((\<exists>c\<in>set names. \<exists>e. coll_find st c q (build_projection f) = Inl e) \<longrightarrow>
         (\<exists>e. snd (filter_telegrams st f) = Inl e))
    \<and> ((snd (filter_telegrams st f) = Inr no_data_found) =
         (\<forall>c\<in>set names. coll_find st c q (build_projection f) = Inr []))"
proof -
  obtain q where q: "build_query f = Some q"
    using assms(3) by (simp add: build_query_clauses)
  have names: "collections_to_query st f = Inr names"
    using assms(1,2) by (auto simp: collections_to_query_def)
  let ?p = "build_projection f"
  have all: "filter_telegrams st f =
           (map (\<lambda>c. (c, q, ?p)) names,
            Inr (if concat (map ds names) = [] then no_data_found
                 else PDict [(''results'', PList (map clean_data (concat (map ds names))))]))"
    if "\<forall>c\<in>set names. coll_find st c q ?p = Inr (ds c)" for ds
    using filter_telegrams_all[OF names q, of ds] that by simp
  have err: "\<exists>e. snd (filter_telegrams st f) = Inl e"
    if "\<exists>c\<in>set names. \<exists>e. coll_find st c q ?p = Inl e"
    using that filter_telegrams_error[OF names q] by blast
  have sentinel: "(snd (filter_telegrams st f) = Inr no_data_found) =
         (\<forall>c\<in>set names. coll_find st c q ?p = Inr [])"
  proof
    assume s: "snd (filter_telegrams st f) = Inr no_data_found"
    have ok: "\<forall>c\<in>set names. \<exists>ds. coll_find st c q ?p = Inr ds"
    proof (rule ccontr)
      assume "\<not> ?thesis"
      then have "\<exists>c\<in>set names. \<exists>e. coll_find st c q ?p = Inl e"
        by (metis sum.exhaust)
      with err s show False by auto
    qed
    define ds where "ds c = (case coll_find st c q ?p of Inr d \<Rightarrow> d | Inl e \<Rightarrow> [])" for c
    have dsok: "\<forall>c\<in>set names. coll_find st c q ?p = Inr (ds c)"
      using ok by (auto simp: ds_def)
    have "concat (map ds names) = []"
      using all[OF dsok] s by (auto simp: no_data_found_not_results split: if_splits)
    then have "\<forall>c\<in>set names. ds c = []" by simp
    with dsok show "\<forall>c\<in>set names. coll_find st c q ?p = Inr []" by simp
  next
    assume "\<forall>c\<in>set names. coll_find st c q ?p = Inr []"
    then show "snd (filter_telegrams st f) = Inr no_data_found"
      using all[of "\<lambda>c. []"] by simp
  qed
  show ?thesis
    using q all err sentinel by blast
qed

theorem fan_out_over_collections_witness:
  "filter_telegrams (fixed_store [''ua'', ''bel''] [PStr ''record'']) (no_criteria\<lparr>hour := Some 18\<rparr>)
   = ([(''ua'', [(''data.hour'', PInt 18)], [(''_id'', PBool False)]),
       (''bel'', [(''data.hour'', PInt 18)], [(''_id'', PBool False)])],
      Inr (PDict [(''results'', PList [PStr ''record'', PStr ''record''])]))"
proof -
  let ?f = "no_criteria\<lparr>hour := Some 18\<rparr>"
  let ?st = "fixed_store [''ua'', ''bel''] [PStr ''record'']"
  have a: "country_code ?f = None \<or> country_code ?f = Some []"
    by (simp add: no_criteria_def)
  have b: "list_collection_names ?st = Inr [''ua'', ''bel'']"
    by (simp add: fixed_store_def)
  have c: "\<not> date_rejected ?f"
    by (simp add: date_rejected_def no_criteria_def)
  have q: "build_query ?f = Some [(''data.hour'', PInt 18)]"
    by (simp add: eval_defs)
  have p: "build_projection ?f = [(''_id'', PBool False)]"
    by (simp add: eval_defs)
  have d: "\<forall>c\<in>set [''ua'', ''bel''].
             coll_find ?st c [(''data.hour'', PInt 18)] (build_projection ?f)
             = Inr [PStr ''record'']"
    by (simp add: fixed_store_def coll_find_def db_getitem_def valid_names)
  show ?thesis
    using fan_out_over_collections[OF a b c, of "\<lambda>c. [PStr ''record'']"] q d
    by (simp add: p)
qed

text \<open>
  C6 as stated fails: with no \<^verbatim>\<open>country_code\<close>, two collections and \<^verbatim>\<open>date: "badbadba"\<close>
  no query is issued at all.
\<close>

theorem unparseable_date_issues_no_query:
  "country_code (no_criteria\<lparr>date := Some ''badbadba''\<rparr>) = None
   \<and> filter_telegrams (fixed_store [''ua'', ''bel''] [PStr ''record''])
       (no_criteria\<lparr>date := Some ''badbadba''\<rparr>)
     = ([], Inr no_data_found)"
  by (simp add: eval_defs)

text \<open>
  C10. An empty \<^verbatim>\<open>station_id\<close> is treated as an unset one: the query is the same, it has
  no constraint on \<^verbatim>\<open>data.station_id\<close>, and the whole request behaves the same; an
  \<^verbatim>\<open>hour\<close> of zero, in contrast, constrains \<^verbatim>\<open>data.hour\<close>.
\<close>

theorem empty_station_id_is_unset:
  "build_query (f\<lparr>station_id := Some []\<rparr>) = build_query (f\<lparr>station_id := None\<rparr>)
   \<and> filter_telegrams st (f\<lparr>station_id := Some []\<rparr>)
       = filter_telegrams st (f\<lparr>station_id := None\<rparr>)
   \<and> (case build_query (f\<lparr>station_id := Some []\<rparr>) of
         None \<Rightarrow> date_rejected f
       | Some q \<Rightarrow> map_of q ''data.station_id'' = None)
   \<and> (case build_query (f\<lparr>hour := Some 0\<rparr>) of
         None \<Rightarrow> date_rejected f
       | Some q \<Rightarrow> map_of q ''data.hour'' = Some (PInt 0))"
proof (intro conjI)
  show q: "build_query (f\<lparr>station_id := Some []\<rparr>) = build_query (f\<lparr>station_id := None\<rparr>)"
    by (simp add: build_query_clauses date_rejected_def station_clause_def date_clause_def
          hour_clause_def)
  have p: "build_projection (f\<lparr>station_id := Some []\<rparr>)
           = build_projection (f\<lparr>station_id := None\<rparr>)"
    by (simp add: build_projection_def)
  show "filter_telegrams st (f\<lparr>station_id := Some []\<rparr>)
       = filter_telegrams st (f\<lparr>station_id := None\<rparr>)"
    using filter_telegrams_cong[OF q p, of st] by simp
  have s: "build_query (f\<lparr>station_id := Some []\<rparr>)
           = (if date_rejected f then None else Some (date_clause f @ hour_clause f))"
    by (simp add: build_query_clauses date_rejected_def station_clause_def date_clause_def
          hour_clause_def)
  have "map_of (date_clause f @ hour_clause f) ''data.station_id'' = None"
    by (simp add: map_add_def date_clause_no_station hour_clause_no_station)
  with s show "case build_query (f\<lparr>station_id := Some []\<rparr>) of
         None \<Rightarrow> date_rejected f
       | Some q \<Rightarrow> map_of q ''data.station_id'' = None"
    by simp
  have h: "build_query (f\<lparr>hour := Some 0\<rparr>)
           = (if date_rejected f then None
              else Some ((station_clause f @ date_clause f) @ [(''data.hour'', PInt 0)]))"
    by (simp add: build_query_clauses date_rejected_def station_clause_def date_clause_def
          hour_clause_def)
  have "map_of ((station_clause f @ date_clause f) @ [(''data.hour'', PInt 0)]) ''data.hour''
        = Some (PInt 0)"
    by (simp add: map_add_def station_clause_no_hour date_clause_no_hour)
  with h show "case build_query (f\<lparr>hour := Some 0\<rparr>) of
         None \<Rightarrow> date_rejected f
       | Some q \<Rightarrow> map_of q ''data.hour'' = Some (PInt 0)"
    by simp
qed

theorem empty_station_id_is_unset_witness:
  "build_query (no_criteria\<lparr>station_id := Some []\<rparr>) = Some []
   \<and> build_query (no_criteria\<lparr>hour := Some 0\<rparr>) = Some [(''data.hour'', PInt 0)]"
  using empty_station_id_is_unset[of no_criteria]
  by (simp add: eval_defs)

section \<open>Properties of the ingestion\<close>

lemma upserts_append: "upserts (xs @ ys) = upserts xs @ upserts ys"
  by (simp add: upserts_def)

lemma printed_counts_append: "printed_counts (xs @ ys) = printed_counts xs @ printed_counts ys"
  by (simp add: printed_counts_def)

lemma upserts_step:
  "upserts [Printed_document d, Upserted c d, Printed_count c n] = [(c, d)]"
  by (simp add: upserts_def)

lemma printed_counts_step:
  "printed_counts [Printed_document d, Upserted c d, Printed_count c n] = [n]"
  by (simp add: printed_counts_def)

lemma map_of_delete_self: "map_of (AList.delete k al) k = None"
  by (simp add: AList.delete_conv')

lemma data_for_mongo_Some:
  "data_for_mongo document = Some d \<Longrightarrow>
   \<exists>v. map_of document ''id_telegram'' = Some v
     \<and> d = PDict [(''id_telegram'', v),
                  (''data'', PDict (AList.delete ''id_telegram'' document))]"
  by (auto simp: data_for_mongo_def split: option.splits)

lemma data_for_mongo_shape: "data_for_mongo document = Some d \<Longrightarrow> stored_shape d"
  by (auto simp: data_for_mongo_def stored_shape_def map_of_delete_self split: option.splits)

lemma process_documents_prefix:
  "\<exists>k\<le>length documents.
     map (\<lambda>u. (fst u, Some (snd u)))
       (upserts (snd (fst (process_documents m country n documents (s, out)))))
     = map (\<lambda>u. (fst u, Some (snd u))) (upserts out)
       @ map (\<lambda>document. (country, data_for_mongo document)) (take k documents)"
proof (induction documents arbitrary: s out)
  case Nil
  then show ?case by simp
next
  case (Cons document rest)
  let ?run = "process_documents m country n (document # rest) (s, out)"
  have stop: ?case if "upserts (snd (fst ?run)) = upserts out"
    using that by (intro exI[of _ 0]) simp
  show ?case
  proof (cases "map_of document ''id_telegram''")
    case None
    then show ?thesis by (intro stop) simp
  next
    case (Some v)
    let ?doc = "PDict [(''id_telegram'', v),
                       (''data'', PDict (AList.delete ''id_telegram'' document))]"
    have d: "data_for_mongo document = Some ?doc"
      using Some by (simp add: data_for_mongo_def)
    show ?thesis
    proof (cases "get_or_create_collection m country s")
      case (Inl e)
      with Some show ?thesis by (intro stop) simp
    next
      case s1: (Inr s1)
      show ?thesis
      proof (cases "insert_or_update_document m country ?doc s1")
        case (Inl e)
        with Some s1 show ?thesis
          by (intro stop) (simp add: Let_def upserts_append, simp add: upserts_def)
      next
        case (Inr s2)
        let ?out = "out @ [Printed_document ?doc, Upserted country ?doc,
                           Printed_count country n]"
        obtain k where k: "k \<le> length rest"
          and eq: "map (\<lambda>u. (fst u, Some (snd u)))
                     (upserts (snd (fst (process_documents m country n rest (s2, ?out)))))
                   = map (\<lambda>u. (fst u, Some (snd u))) (upserts ?out)
                     @ map (\<lambda>document. (country, data_for_mongo document)) (take k rest)"
          using Cons.IH[of s2 ?out] by blast
        have run: "?run = process_documents m country n rest (s2, ?out)"
          using Some s1 Inr by (simp add: Let_def)
        show ?thesis
          using k eq d
          by (intro exI[of _ "Suc k"]) (simp only: run, simp add: upserts_append upserts_step)
      qed
    qed
  qed
qed

lemma process_documents_applies_upserts:
  "map data_for_mongo documents = map Some ds \<Longrightarrow> apply_upserts m country ds s = Inr s' \<Longrightarrow>
   fst (fst (process_documents m country n documents (s, out))) = s'
   \<and> upserts (snd (fst (process_documents m country n documents (s, out))))
       = upserts out @ map (Pair country) ds
   \<and> snd (process_documents m country n documents (s, out)) = Inr PNone"
proof (induction documents arbitrary: ds s out)
  case Nil
  then show ?case by simp
next
  case (Cons document rest)
  obtain d ds' where ds: "ds = d # ds'" and d: "data_for_mongo document = Some d"
    and rest: "map data_for_mongo rest = map Some ds'"
    using Cons.prems(1) by (cases ds) auto
  obtain v where v: "map_of document ''id_telegram'' = Some v"
    and doc: "d = PDict [(''id_telegram'', v),
                        (''data'', PDict (AList.delete ''id_telegram'' document))]"
    using data_for_mongo_Some[OF d] by blast
  obtain s1 where s1: "get_or_create_collection m country s = Inr s1"
    using Cons.prems(2) ds by (cases "get_or_create_collection m country s") simp_all
  obtain s2 where s2: "insert_or_update_document m country d s1 = Inr s2"
    using Cons.prems(2) ds s1
    by (cases "insert_or_update_document m country d s1") simp_all
  have later: "apply_upserts m country ds' s2 = Inr s'"
    using Cons.prems(2) ds s1 s2 by simp
  show ?case
    using Cons.IH[OF rest later,
        of "out @ [Printed_document d, Upserted country d, Printed_count country n]"]
      v s1 s2 ds
    by (simp add: doc[symmetric] Let_def upserts_append upserts_step)
qed

lemma process_documents_returns_None:
  "snd (process_documents m country n documents st) = Inr v \<Longrightarrow> v = PNone"
proof (induction documents arbitrary: st)
  case Nil
  then show ?case by (cases st) simp
next
  case (Cons document rest)
  then show ?case
    by (cases st) (auto simp: Let_def split: option.splits sum.splits)
qed

lemma process_documents_complete:
  assumes "\<forall>document\<in>set documents. map_of document ''id_telegram'' \<noteq> None"
    and "\<And>name s. \<exists>s'. get_or_create_collection m name s = Inr s'"
    and "\<And>name doc s. \<exists>s'. insert_or_update_document m name doc s = Inr s'"
  shows "snd (process_documents m country n documents (s, out)) = Inr PNone
    \<and> length (upserts (snd (fst (process_documents m country n documents (s, out)))))
        = length (upserts out) + length documents
    \<and> printed_counts (snd (fst (process_documents m country n documents (s, out))))
        = printed_counts out @ replicate (length documents) n"
  using assms(1)
proof (induction documents arbitrary: s out)
  case Nil
  then show ?case by simp
next
  case (Cons document rest)
  obtain v where v: "map_of document ''id_telegram'' = Some v"
    using Cons.prems by auto
  let ?doc = "PDict [(''id_telegram'', v),
                     (''data'', PDict (AList.delete ''id_telegram'' document))]"
  obtain s1 where s1: "get_or_create_collection m country s = Inr s1"
    using assms(2) by blast
  obtain s2 where s2: "insert_or_update_document m country ?doc s1 = Inr s2"
    using assms(3) by blast
  have rest: "\<forall>document\<in>set rest. map_of document ''id_telegram'' \<noteq> None"
    using Cons.prems by simp
  show ?case
    using Cons.IH[OF rest, of s2 "out @ [Printed_document ?doc, Upserted country ?doc,
                             Printed_count country n]"] v s1 s2
    by (simp add: Let_def upserts_append printed_counts_append upserts_step printed_counts_step)
qed

lemmas ingest_defs =
  download_and_process_telegrams_def two_records_def counting_manager_def Let_def
  AList.delete_eq

text \<open>
  C8. What \<^verbatim>\<open>download_and_process_telegrams\<close> hands to the upsert, record by record.
  Whatever the store does, the documents upserted are, in order, the documents built from
  the first records received (all of them up to the first failure), each into the
  collection of the country. When every record carries \<^verbatim>\<open>id_telegram\<close> and the store
  accepts the documents built from them, every record is upserted: the store ends as it
  is after these upserts and the function returns. The document built from a record is
  \<^verbatim>\<open>{id_telegram, data}\<close>: the record's own identifier once, at the top, and under
  \<^verbatim>\<open>data\<close> the record without the key \<^verbatim>\<open>id_telegram\<close>.
\<close>

theorem each_record_is_upserted_as_id_and_data:
  "(process_telegrams country = Inr documents \<longrightarrow>
      (\<exists>k\<le>length documents.
         map (\<lambda>u. (fst u, Some (snd u)))
           (upserts (snd (fst (download_and_process_telegrams process_telegrams m country s))))
         = map (\<lambda>document. (country, data_for_mongo document)) (take k documents)))
   \<and> (process_telegrams country = Inr documents
      \<and> map data_for_mongo documents = map Some ds
      \<and> apply_upserts m country ds s = Inr s'
      \<longrightarrow> fst (fst (download_and_process_telegrams process_telegrams m country s)) = s'
        \<and> upserts (snd (fst (download_and_process_telegrams process_telegrams m country s)))
            = map (Pair country) ds
        \<and> snd (download_and_process_telegrams process_telegrams m country s) = Inr PNone)
   \<and> (data_for_mongo document = Some d \<longrightarrow>
        (\<exists>v. map_of document ''id_telegram'' = Some v
           \<and> d = PDict [(''id_telegram'', v),
                        (''data'', PDict (AList.delete ''id_telegram'' document))])
        \<and> stored_shape d)"
proof (intro conjI impI)
  assume p: "process_telegrams country = Inr documents"
  have e: "upserts [] = []" by (simp add: upserts_def)
  show "\<exists>k\<le>length documents.
         map (\<lambda>u. (fst u, Some (snd u)))
           (upserts (snd (fst (download_and_process_telegrams process_telegrams m country s))))
         = map (\<lambda>document. (country, data_for_mongo document)) (take k documents)"
    using process_documents_prefix[of documents m country "length documents" s "[]"] p
    by (simp add: download_and_process_telegrams_def e)
next
  assume a: "process_telegrams country = Inr documents
      \<and> map data_for_mongo documents = map Some ds
      \<and> apply_upserts m country ds s = Inr s'"
  have e: "upserts [] = []" by (simp add: upserts_def)
  have r: "fst (fst (process_documents m country (length documents) documents (s, []))) = s'
   \<and> upserts (snd (fst (process_documents m country (length documents) documents (s, []))))
       = upserts [] @ map (Pair country) ds
   \<and> snd (process_documents m country (length documents) documents (s, [])) = Inr PNone"
    using a by (intro process_documents_applies_upserts) blast+
  show "fst (fst (download_and_process_telegrams process_telegrams m country s)) = s'"
    using a r by (simp add: download_and_process_telegrams_def)
  show "upserts (snd (fst (download_and_process_telegrams process_telegrams m country s)))
            = map (Pair country) ds"
    using a r by (simp add: download_and_process_telegrams_def e)
  show "snd (download_and_process_telegrams process_telegrams m country s) = Inr PNone"
    using a r by (simp add: download_and_process_telegrams_def)
next
  assume d: "data_for_mongo document = Some d"
  show "\<exists>v. map_of document ''id_telegram'' = Some v
           \<and> d = PDict [(''id_telegram'', v),
                        (''data'', PDict (AList.delete ''id_telegram'' document))]"
    using d by (rule data_for_mongo_Some)
  show "stored_shape d"
    using d by (rule data_for_mongo_shape)
qed

theorem each_record_is_upserted_as_id_and_data_witness:
  "fst (fst (download_and_process_telegrams two_records recording_manager ''ua'' []))
   = [(''ua'', PDict [(''id_telegram'', PStr ''3450420249218''),
                     (''data'', PDict [(''station_id'', PStr ''34504''), (''hour'', PInt 18)])]),
      (''ua'', PDict [(''id_telegram'', PStr ''3450520249218''),
                     (''data'', PDict [(''station_id'', PStr ''34505''), (''hour'', PInt 18)])])]
   \<and> upserts (snd (fst (download_and_process_telegrams two_records recording_manager ''ua'' [])))
   = [(''ua'', PDict [(''id_telegram'', PStr ''3450420249218''),
                     (''data'', PDict [(''station_id'', PStr ''34504''), (''hour'', PInt 18)])]),
      (''ua'', PDict [(''id_telegram'', PStr ''3450520249218''),
                     (''data'', PDict [(''station_id'', PStr ''34505''), (''hour'', PInt 18)])])]
   \<and> snd (download_and_process_telegrams two_records recording_manager ''ua'' []) = Inr PNone"
proof -
  let ?r1 = "[(''id_telegram'', PStr ''3450420249218''), (''station_id'', PStr ''34504''),
              (''hour'', PInt 18)]"
  let ?r2 = "[(''station_id'', PStr ''34505''), (''id_telegram'', PStr ''3450520249218''),
              (''hour'', PInt 18)]"
  let ?d1 = "PDict [(''id_telegram'', PStr ''3450420249218''),
                    (''data'', PDict [(''station_id'', PStr ''34504''), (''hour'', PInt 18)])]"
  let ?d2 = "PDict [(''id_telegram'', PStr ''3450520249218''),
                    (''data'', PDict [(''station_id'', PStr ''34505''), (''hour'', PInt 18)])]"
  have a: "two_records ''ua'' = Inr [?r1, ?r2]"
    by (simp add: two_records_def)
  have b: "map data_for_mongo [?r1, ?r2] = map Some [?d1, ?d2]"
    by (simp add: data_for_mongo_def AList.delete_eq)
  have c: "apply_upserts recording_manager ''ua'' [?d1, ?d2] []
           = Inr [(''ua'', ?d1), (''ua'', ?d2)]"
    by (simp add: recording_manager_def)
  show ?thesis
    using each_record_is_upserted_as_id_and_data
      [where process_telegrams = two_records and country = "''ua''" and m = recording_manager
         and documents = "[?r1, ?r2]" and ds = "[?d1, ?d2]" and s = "[]"
         and s' = "[(''ua'', ?d1), (''ua'', ?d2)]"] a b c
    by simp
qed

text \<open>
  C5, amended. \<^verbatim>\<open>download_and_process_telegrams\<close> returns no count: whenever it returns,
  it returns \<^verbatim>\<open>None\<close>. When the processor delivers records that all carry
  \<^verbatim>\<open>id_telegram\<close> and the store accepts every operation, it does return, after one upsert
  per record received, and the number of records received is only printed (after each
  upsert).
\<close>

theorem ingestion_returns_none:
  "(snd (download_and_process_telegrams process_telegrams m country s) = Inr v \<longrightarrow> v = PNone)
   \<and> (process_telegrams country = Inr documents
      \<and> (\<forall>document\<in>set documents. map_of document ''id_telegram'' \<noteq> None)
      \<and> (\<forall>name s. \<exists>s'. get_or_create_collection m name s = Inr s')
      \<and> (\<forall>name doc s. \<exists>s'. insert_or_update_document m name doc s = Inr s')
      \<longrightarrow> snd (download_and_process_telegrams process_telegrams m country s) = Inr PNone
        \<and> length (upserts (snd (fst
              (download_and_process_telegrams process_telegrams m country s))))
            = length documents
        \<and> printed_counts (snd (fst
              (download_and_process_telegrams process_telegrams m country s)))
            = replicate (length documents) (length documents))"
proof (intro conjI impI)
  assume "snd (download_and_process_telegrams process_telegrams m country s) = Inr v"
  then show "v = PNone"
    by (cases "process_telegrams country")
       (auto simp: download_and_process_telegrams_def dest: process_documents_returns_None)
next
  assume a: "process_telegrams country = Inr documents
      \<and> (\<forall>document\<in>set documents. map_of document ''id_telegram'' \<noteq> None)
      \<and> (\<forall>name s. \<exists>s'. get_or_create_collection m name s = Inr s')
      \<and> (\<forall>name doc s. \<exists>s'. insert_or_update_document m name doc s = Inr s')"
  have e: "upserts [] = []" "printed_counts [] = []"
    by (simp_all add: upserts_def printed_counts_def)
  have "snd (process_documents m country (length documents) documents (s, [])) = Inr PNone
    \<and> length (upserts (snd (fst (process_documents m country (length documents) documents (s, [])))))
        = length (upserts []) + length documents
    \<and> printed_counts (snd (fst (process_documents m country (length documents) documents (s, []))))
        = printed_counts [] @ replicate (length documents) (length documents)"
    using a by (intro process_documents_complete) auto
  then have r: "snd (download_and_process_telegrams process_telegrams m country s) = Inr PNone
        \<and> length (upserts (snd (fst
              (download_and_process_telegrams process_telegrams m country s))))
            = length documents
        \<and> printed_counts (snd (fst
              (download_and_process_telegrams process_telegrams m country s)))
            = replicate (length documents) (length documents)"
    using a by (simp add: download_and_process_telegrams_def e)
  from r show "snd (download_and_process_telegrams process_telegrams m country s) = Inr PNone"
    by simp
  from r show "length (upserts (snd (fst
              (download_and_process_telegrams process_telegrams m country s))))
            = length documents"
    by simp
  from r show "printed_counts (snd (fst
              (download_and_process_telegrams process_telegrams m country s)))
            = replicate (length documents) (length documents)"
    by simp
qed

theorem ingestion_returns_none_witness:
  "snd (download_and_process_telegrams two_records counting_manager ''ua'' 0) = Inr PNone
   \<and> printed_counts (snd (fst (download_and_process_telegrams two_records counting_manager ''ua'' 0)))
     = [2, 2]
   \<and> fst (fst (download_and_process_telegrams two_records counting_manager ''ua'' 0)) = 2"
proof -
  have a: "two_records ''ua'' =
     Inr [[(''id_telegram'', PStr ''3450420249218''), (''station_id'', PStr ''34504''),
           (''hour'', PInt 18)],
          [(''station_id'', PStr ''34505''), (''id_telegram'', PStr ''3450520249218''),
           (''hour'', PInt 18)]]"
    by (simp add: two_records_def)
  have b: "\<forall>document\<in>set [[(''id_telegram'', PStr ''3450420249218''), (''station_id'', PStr ''34504''),
           (''hour'', PInt 18)],
          [(''station_id'', PStr ''34505''), (''id_telegram'', PStr ''3450520249218''),
           (''hour'', PInt 18)]]. map_of document ''id_telegram'' \<noteq> None"
    by simp
  have c: "\<forall>name s. \<exists>s'. get_or_create_collection counting_manager name s = Inr s'"
    by (simp add: counting_manager_def)
  have d: "\<forall>name doc s. \<exists>s'. insert_or_update_document counting_manager name doc s = Inr s'"
    by (simp add: counting_manager_def)
  have "fst (fst (download_and_process_telegrams two_records counting_manager ''ua'' 0)) = 2"
    by (simp add: ingest_defs)
  then show ?thesis
    using ingestion_returns_none[of two_records counting_manager "''ua''" 0 PNone
        "[[(''id_telegram'', PStr ''3450420249218''), (''station_id'', PStr ''34504''),
           (''hour'', PInt 18)],
          [(''station_id'', PStr ''34505''), (''id_telegram'', PStr ''3450520249218''),
           (''hour'', PInt 18)]]"] a b c d
    by (simp add: numeral_2_eq_2)
qed

text \<open>
  C5 as stated fails: with two records received and upserted, the function returns
  \<^verbatim>\<open>None\<close>, not 2.
\<close>

theorem ingestion_does_not_return_count:
  "snd (download_and_process_telegrams two_records counting_manager ''ua'' 0) = Inr PNone
   \<and> snd (download_and_process_telegrams two_records counting_manager ''ua'' 0) \<noteq> Inr (PInt 2)"
  by (simp add: ingest_defs)

section \<open>Properties of the projection\<close>

lemma split_dots_no_dot: "CHR ''.'' \<notin> set s \<Longrightarrow> split_dots s = [s]"
  by (induction s) auto

lemma split_dots_data: "split_dots (''data.'' @ s) = ''data'' # split_dots s"
  by simp

lemma set_update_distinct:
  "distinct (map fst al) \<Longrightarrow>
   set (AList.update k v al) = insert (k, v) {kv \<in> set al. fst kv \<noteq> k}"
  by (induction al) (auto simp: rev_image_eqI)

lemma foldl_update_projection:
  "distinct (map fst p) \<Longrightarrow>
   distinct (map fst (foldl (\<lambda>p field. AList.update (g field) v p) p names))
   \<and> set (foldl (\<lambda>p field. AList.update (g field) v p) p names)
       = {kv \<in> set p. fst kv \<notin> g ` set names} \<union> (\<lambda>n. (g n, v)) ` set names"
proof (induction names arbitrary: p)
  case Nil
  then show ?case by simp
next
  case (Cons n names)
  have d: "distinct (map fst (AList.update (g n) v p))"
    using Cons.prems by (simp add: distinct_update)
  show ?case
    using Cons.IH[OF d] Cons.prems
    by (auto simp: set_update_distinct)
qed

lemma foldl_update_fresh_start:
  assumes "k0 \<notin> g ` set names"
  shows "set (foldl (\<lambda>p field. AList.update (g field) v p) [(k0, v0)] names)
         = insert (k0, v0) ((\<lambda>n. (g n, v)) ` set names)"
    and "distinct (map fst (foldl (\<lambda>p field. AList.update (g field) v p) [(k0, v0)] names))"
  using foldl_update_projection[of "[(k0, v0)]" g v names] assms by auto

lemma id_is_no_data_path: "''_id'' \<notin> (\<lambda>n. ''data.'' @ n) ` N"
  by auto

lemma build_projection_named:
  assumes "fields_to_return f = Some names" and "names \<noteq> []"
  shows "set (build_projection f)
         = insert (''_id'', PBool False) ((\<lambda>n. (''data.'' @ n, PBool True)) ` set names)"
    and "distinct (map fst (build_projection f))"
proof -
  have F: "build_projection f
           = foldl (\<lambda>p field. AList.update (''data.'' @ field) (PBool True) p)
               [(''_id'', PBool False)] names"
    using assms by (simp add: build_projection_def)
  show "set (build_projection f)
         = insert (''_id'', PBool False) ((\<lambda>n. (''data.'' @ n, PBool True)) ` set names)"
    unfolding F by (rule foldl_update_fresh_start(1)) (rule id_is_no_data_path)
  show "distinct (map fst (build_projection f))"
    unfolding F by (rule foldl_update_fresh_start(2)) (rule id_is_no_data_path)
qed

lemma included_paths:
  "set [h path. (path, flag) \<leftarrow> P, flag = t] = {h path |path. (path, t) \<in> set P}"
  by (induction P) auto

lemma included_of_projection:
  "t \<noteq> v0 \<Longrightarrow>
   {h path |path. (path, t) \<in> insert (k0, v0) ((\<lambda>n. (g n, t)) ` N)} = (\<lambda>n. h (g n)) ` N"
  by auto

lemma split_dots_data_field:
  "CHR ''.'' \<notin> set n \<Longrightarrow> split_dots (''data.'' @ n) = [''data'', n]"
  by (simp add: split_dots_no_dot)

lemma build_projection_absent:
  "fields_to_return f = None \<or> fields_to_return f = Some [] \<Longrightarrow>
   build_projection f = [(''_id'', PBool False)]"
  by (auto simp: build_projection_def)

lemma set_sub_paths: "set (sub_paths k paths) = {ks. k # ks \<in> set paths}"
  by (induction paths) (auto simp: sub_paths_def split: list.splits)

lemma sub_paths_empty: "(sub_paths k paths = []) = ({ks. k # ks \<in> set paths} = {})"
  using set_sub_paths[of k paths] by (metis set_empty)

lemma project_fields_leaves:
  "set subs = (\<lambda>n. [n]) ` N \<Longrightarrow> project_fields subs d = filter (\<lambda>(k, x). k \<in> N) d"
proof (induction d)
  case Nil
  then show ?case by simp
next
  case (Cons kv d)
  obtain k v where kv: "kv = (k, v)" by (cases kv)
  have s: "{ks. k # ks \<in> set subs} = (if k \<in> N then {[]} else {})"
    using Cons.prems by auto
  show ?case
  proof (cases "k \<in> N")
    case True
    then have "sub_paths k subs \<noteq> []" "[] \<in> set (sub_paths k subs)"
      using s by (auto simp: sub_paths_empty set_sub_paths)
    then show ?thesis using Cons True kv by (simp add: Let_def)
  next
    case False
    then have "sub_paths k subs = []"
      using s by (simp add: sub_paths_empty)
    then show ?thesis using Cons False kv by simp
  qed
qed

lemma project_fields_data:
  assumes "set paths = (\<lambda>n. [''data'', n]) ` N" and "N \<noteq> {}" and "N = set names"
  shows "data_is_mapping doc \<Longrightarrow> project_fields paths doc = named_fields_only names doc"
proof (induction doc)
  case Nil
  then show ?case by (simp add: named_fields_only_def)
next
  case (Cons kv doc)
  obtain k v where kv: "kv = (k, v)" by (cases kv)
  have rest: "data_is_mapping doc"
    using Cons.prems by (simp add: data_is_mapping_def)
  show ?case
  proof (cases "k = ''data''")
    case False
    then have "{ks. k # ks \<in> set paths} = {}"
      using assms(1) by auto
    then have "sub_paths k paths = []"
      by (simp add: sub_paths_empty)
    then show ?thesis
      using Cons.IH[OF rest] False kv by (simp add: named_fields_only_def)
  next
    case True
    obtain d where v: "v = PDict d"
      using Cons.prems True kv by (cases v) (simp_all add: data_is_mapping_def)
    have s: "set (sub_paths k paths) = (\<lambda>n. [n]) ` N"
      using assms(1) True by (auto simp: set_sub_paths)
    then have ne: "sub_paths k paths \<noteq> []" "[] \<notin> set (sub_paths k paths)"
      using assms(2) by auto
    have "project_fields (sub_paths k paths) d = filter (\<lambda>(k, x). k \<in> N) d"
      using s by (rule project_fields_leaves)
    then show ?thesis
      using Cons.IH[OF rest] True kv v ne assms(3)
      by (simp add: named_fields_only_def restrict_to_def Let_def)
  qed
qed

lemma apply_projection_named:
  assumes "fields_to_return f = Some names" and "names \<noteq> []"
    and "\<forall>n\<in>set names. CHR ''.'' \<notin> set n" and "data_is_mapping doc"
  shows "apply_projection (build_projection f) doc = named_fields_only names doc"
proof -
  define P where "P = build_projection f"
  define inc where "inc = [split_dots path. (path, flag) \<leftarrow> P, flag = PBool True]"
  have Pset: "set P = insert (''_id'', PBool False)
                        ((\<lambda>n. (''data.'' @ n, PBool True)) ` set names)"
    and D: "distinct (map fst P)"
    unfolding P_def using build_projection_named[OF assms(1,2)] by blast+
  have "set inc = {split_dots path |path. (path, PBool True) \<in> set P}"
    unfolding inc_def by (rule included_paths)
  also have "\<dots> = (\<lambda>n. split_dots (''data.'' @ n)) ` set names"
    unfolding Pset by (rule included_of_projection) simp
  also have "\<dots> = (\<lambda>n. [''data'', n]) ` set names"
    using assms(3) by (intro image_cong refl) (blast intro: split_dots_data_field)
  finally have inc: "set inc = (\<lambda>n. [''data'', n]) ` set names" .
  have "set names \<noteq> {}" using assms(2) by simp
  then have "set inc \<noteq> {}" unfolding inc by blast
  then have ne: "inc \<noteq> []" by auto
  have "(''_id'', PBool False) \<in> set P" unfolding Pset by blast
  then have idx: "map_of P ''_id'' = Some (PBool False)"
    using D by (simp only: map_of_eq_Some_iff)
  have "apply_projection P doc = project_fields inc doc"
    unfolding apply_projection_def inc_def[symmetric] Let_def using ne idx by simp
  also have "\<dots> = named_fields_only names doc"
    using inc \<open>set names \<noteq> {}\<close> assms(4)
    by (intro project_fields_data[where N = "set names"]) simp_all
  finally show ?thesis unfolding P_def .
qed

lemma apply_projection_absent:
  "fields_to_return f = None \<or> fields_to_return f = Some [] \<Longrightarrow>
   apply_projection (build_projection f) doc = AList.delete ''_id'' doc"
  by (simp add: build_projection_absent apply_projection_def)

lemma named_fields_only_keys: "fst ` set (named_fields_only names doc) \<subseteq> {''data''}"
  by (auto simp: named_fields_only_def)


lemma answer_unfold:
  "answer sel db names q view =
     (if concat (map (\<lambda>name. map (\<lambda>doc. PDict (view doc))
                        (filter (sel q) (collection_docs db name))) names) = []
      then no_data_found
      else PDict [(''results'',
             PList (map clean_data
               (concat (map (\<lambda>name. map (\<lambda>doc. PDict (view doc))
                        (filter (sel q) (collection_docs db name))) names))))])"
  by (simp add: answer_def Let_def map_concat comp_def)

lemma mongo_answer:
  assumes "collections_to_query (mongo_store sel db) f = Inr names"
    and "build_query f = Some q"
    and "\<forall>name\<in>set names. valid_collection_name name"
    and "\<And>name doc. name \<in> set names \<Longrightarrow> doc \<in> set (collection_docs db name) \<Longrightarrow>
           apply_projection (build_projection f) doc = view doc"
  shows "snd (filter_telegrams (mongo_store sel db) f) = Inr (answer sel db names q view)"
proof -
  have "coll_find (mongo_store sel db) name q (build_projection f)
        = Inr (map (\<lambda>doc. PDict (view doc)) (filter (sel q) (collection_docs db name)))"
    if "name \<in> set names" for name
    using assms(4)[OF that] assms(3) that
    by (simp add: coll_find_def db_getitem_def mongo_store_def mongo_find_def)
  then show ?thesis
    using filter_telegrams_all[OF assms(1,2),
        of "\<lambda>name. map (\<lambda>doc. PDict (view doc)) (filter (sel q) (collection_docs db name))"]
    by (simp add: answer_unfold)
qed

lemmas mongo_eval_defs =
  mongo_store_def mongo_find_def collection_docs_def matches_def value_matches_def
  float_of_int_def signed_def apply_projection_def sub_paths_def example_db_def
  float_hour_db_def AList.delete_eq

text \<open>
  C9, amended, over the model of MongoDB, whatever relation \<open>sel\<close> the store uses to select
  the records that match a query. When \<^verbatim>\<open>fields_to_return\<close> is a non-empty list of plain
  field names, the stored records keep a mapping under \<^verbatim>\<open>data\<close> and the driver accepts the
  names of the collections queried, the records returned by \<^verbatim>\<open>filter_telegrams\<close> are the
  records the store selects, each as its \<^verbatim>\<open>data\<close> restricted to exactly the named
  sub-fields, and nothing else: the identifier \<^verbatim>\<open>id_telegram\<close> is not returned. When
  \<^verbatim>\<open>fields_to_return\<close> is absent or empty, the full record without \<^verbatim>\<open>_id\<close> is returned.
\<close>

theorem projection_returns_named_data_only:
  assumes "collections_to_query (mongo_store sel db) f = Inr names"
    and "build_query f = Some q"
    and "\<forall>name\<in>set names. valid_collection_name name"
  shows "(fields_to_return f = Some wanted \<and> wanted \<noteq> []
          \<and> (\<forall>n\<in>set wanted. plain_field_name n)
          \<and> (\<forall>name\<in>set names. \<forall>doc\<in>set (collection_docs db name). data_is_mapping doc)
          \<longrightarrow> snd (filter_telegrams (mongo_store sel db) f)
               = Inr (answer sel db names q (named_fields_only wanted)))
       \<and> (fields_to_return f = None \<or> fields_to_return f = Some []
          \<longrightarrow> snd (filter_telegrams (mongo_store sel db) f)
               = Inr (answer sel db names q (AList.delete ''_id'')))
       \<and> map_of (named_fields_only wanted doc) ''id_telegram'' = None"
proof (intro conjI impI)
  assume a: "fields_to_return f = Some wanted \<and> wanted \<noteq> []
          \<and> (\<forall>n\<in>set wanted. plain_field_name n)
          \<and> (\<forall>name\<in>set names. \<forall>doc\<in>set (collection_docs db name). data_is_mapping doc)"
  then have dots: "\<forall>n\<in>set wanted. CHR ''.'' \<notin> set n"
    by (simp add: plain_field_name_def)
  show "snd (filter_telegrams (mongo_store sel db) f)
        = Inr (answer sel db names q (named_fields_only wanted))"
  proof (rule mongo_answer[OF assms])
    fix name doc
    assume "name \<in> set names" and "doc \<in> set (collection_docs db name)"
    then have "data_is_mapping doc" using a by blast
    then show "apply_projection (build_projection f) doc = named_fields_only wanted doc"
      using a dots by (intro apply_projection_named) blast+
  qed
next
  assume "fields_to_return f = None \<or> fields_to_return f = Some []"
  then show "snd (filter_telegrams (mongo_store sel db) f)
        = Inr (answer sel db names q (AList.delete ''_id''))"
    by (intro mongo_answer[OF assms] apply_projection_absent)
next
  have "''id_telegram'' \<notin> fst ` set (named_fields_only wanted doc)"
    using named_fields_only_keys[of wanted doc] by auto
  then show "map_of (named_fields_only wanted doc) ''id_telegram'' = None"
    by (simp add: map_of_eq_None_iff)
qed

theorem projection_returns_named_data_only_witness:
  "snd (filter_telegrams (mongo_store matches float_hour_db)
          (no_criteria\<lparr>country_code := Some ''ua'', hour := Some 18,
                        fields_to_return := Some [''station_id'', ''wind_speed'']\<rparr>))
   = Inr (PDict [(''results'',
            PList [PDict [(''data'', PDict [(''station_id'', PStr ''34504'')])]])])"
proof -
  let ?f = "no_criteria\<lparr>country_code := Some ''ua'', hour := Some 18,
                        fields_to_return := Some [''station_id'', ''wind_speed'']\<rparr>"
  have c: "collections_to_query (mongo_store matches float_hour_db) ?f = Inr [''ua'']"
    by (simp add: collections_to_query_def no_criteria_def)
  have q: "build_query ?f = Some [(''data.hour'', PInt 18)]"
    by (simp add: eval_defs)
  have v: "\<forall>name\<in>set [''ua'']. valid_collection_name name"
    by (simp add: valid_names)
  have w: "fields_to_return ?f = Some [''station_id'', ''wind_speed'']
           \<and> [''station_id'', ''wind_speed''] \<noteq> []
           \<and> (\<forall>n\<in>set [''station_id'', ''wind_speed'']. plain_field_name n)
           \<and> (\<forall>name\<in>set [''ua'']. \<forall>doc\<in>set (collection_docs float_hour_db name).
                 data_is_mapping doc)"
    by (simp add: collection_docs_def float_hour_db_def data_is_mapping_def
          plain_field_name_def)
  have "answer matches float_hour_db [''ua''] [(''data.hour'', PInt 18)]
          (named_fields_only [''station_id'', ''wind_speed''])
        = PDict [(''results'',
            PList [PDict [(''data'', PDict [(''station_id'', PStr ''34504'')])]])]"
    by (simp add: answer_def named_fields_only_def restrict_to_def collection_docs_def
          float_hour_db_def matches_def value_matches_def float_of_int_def signed_def Let_def)
  then show ?thesis
    using projection_returns_named_data_only[OF c q v, of "[''station_id'', ''wind_speed'']"] w
    by simp
qed

text \<open>
  C9 as stated fails: asked for \<^verbatim>\<open>station_id\<close>, the record comes back as
  \<^verbatim>\<open>{data: {station_id}}\<close> without its identifier, as in the example of the handler's
  docstring; and with an empty list given, the full record comes back.
\<close>

theorem projected_record_has_no_identifier:
  "snd (filter_telegrams (mongo_store matches example_db)
          (no_criteria\<lparr>country_code := Some ''ua'',
                        fields_to_return := Some [''station_id'']\<rparr>))
   = Inr (PDict [(''results'',
            PList [PDict [(''data'', PDict [(''station_id'', PStr ''34504'')])]])])
   \<and> snd (filter_telegrams (mongo_store matches example_db)
          (no_criteria\<lparr>country_code := Some ''ua'', fields_to_return := Some []\<rparr>))
   = Inr (PDict [(''results'',
            PList [PDict [(''id_telegram'', PStr ''3450420249218''),
                          (''data'', PDict [(''station_id'', PStr ''34504''),
                                            (''hour'', PInt 18),
                                            (''temperature'', PFloat (Finite False 251 (-3)))])]])])"
  by (simp add: eval_defs mongo_eval_defs)

section \<open>Properties of the PUT handler\<close>

text \<open>
  The reply follows \<^verbatim>\<open>modified_count\<close>; an identifier that matches no record leaves the
  store as it was and is reported as not found; a collection name the driver does not
  accept ends the request in \<^verbatim>\<open>InvalidName\<close>.
\<close>

lemma put_reply_follows_modified_count:
  "update_one collection_name [(''id_telegram'', PStr id_teleg)]
     [(''$set'', PDict (map (\<lambda>(field, value). (''data.'' @ field, value)) dynamic_updates))] s
   = Inr (result, s') \<Longrightarrow>
   update_data_in_collection update_one collection_name id_teleg dynamic_updates s
   = Inr (if modified_count result = 1 then Data_updated else Data_not_found, s')"
  by (simp add: update_data_in_collection_def)

lemma update_first_no_match:
  "\<forall>doc\<in>set docs. \<not> matches flt doc \<Longrightarrow>
   update_first flt sets docs = Inr (\<lparr>matched_count = 0, modified_count = 0\<rparr>, docs)"
  by (induction docs) simp_all

lemma update_same_value: "map_of al k = Some v \<Longrightarrow> AList.update k v al = al"
  by (induction al) auto

lemma put_missing_id_creates_nothing:
  assumes "\<forall>doc\<in>set (collection_docs db name). \<not> matches [(''id_telegram'', PStr id_teleg)] doc"
    and "valid_collection_name name"
  shows "update_data_in_collection mongo_update_one name id_teleg dynamic_updates db
         = Inr (Data_not_found, db)"
proof (cases "map_of db name")
  case None
  then show ?thesis
    using assms(2)
    by (simp add: update_data_in_collection_def mongo_update_one_def db_getitem_def)
next
  case (Some docs)
  then have "\<forall>doc\<in>set docs. \<not> matches [(''id_telegram'', PStr id_teleg)] doc"
    using assms(1) by (simp add: collection_docs_def)
  then show ?thesis
    using Some assms(2)
    by (simp add: update_data_in_collection_def mongo_update_one_def db_getitem_def
          update_first_no_match update_same_value)
qed

lemma put_invalid_name_raises:
  "\<not> valid_collection_name name \<Longrightarrow>
   update_data_in_collection mongo_update_one name id_teleg dynamic_updates db
   = Inl (InvalidName name)"
  by (simp add: update_data_in_collection_def mongo_update_one_def db_getitem_def)

text \<open>
  C4. The handler tests \<^verbatim>\<open>modified_count\<close>, not \<^verbatim>\<open>matched_count\<close>: an update that sets
  a field of an existing record to the value it already has is reported as "no data
  found for this id", although the record exists; an update that changes the value is
  reported as a success and merges the field, leaving the others untouched.
\<close>

theorem unchanged_record_is_reported_missing:
  "map_of example_db ''ua''
   = Some [[(''_id'', PInt 1), (''id_telegram'', PStr ''3450420249218''),
            (''data'', PDict [(''station_id'', PStr ''34504''), (''hour'', PInt 18),
                              (''temperature'', PFloat (Finite False 251 (-3)))])]]
   \<and> update_data_in_collection mongo_update_one ''ua'' ''3450420249218''
       [(''hour'', PInt 18)] example_db
     = Inr (Data_not_found, example_db)
   \<and> update_data_in_collection mongo_update_one ''ua'' ''3450420249218''
       [(''hour'', PInt 21)] example_db
     = Inr (Data_updated,
            [(''ua'',
              [[(''_id'', PInt 1), (''id_telegram'', PStr ''3450420249218''),
                (''data'', PDict [(''station_id'', PStr ''34504''), (''hour'', PInt 21),
                                  (''temperature'', PFloat (Finite False 251 (-3)))])]])])"
  by (simp add: update_data_in_collection_def mongo_update_one_def example_db_def matches_def
        value_matches_def db_getitem_def valid_names)

end
